theory Spec2Isabelle
  imports Complex_Main
begin

section \<open>The goal graph of kai-unified-session\<close>

text \<open>
  A shallow embedding of the entity model (\<^verbatim>\<open>models/goal.ts\<close>, \<^verbatim>\<open>snapshot.ts\<close>,
  \<^verbatim>\<open>branch.ts\<close>, \<^verbatim>\<open>project.ts\<close>, \<^verbatim>\<open>index.ts\<close>), the YAML record store
  (\<^verbatim>\<open>storage/yaml-store.ts\<close>), the index builder (\<^verbatim>\<open>storage/index-builder.ts\<close>) and the
  goal service (\<^verbatim>\<open>storage/goal-service.ts\<close>).

  Conventions of the model.
  \<^item> An interface is a record; its fields carry a short prefix, since field names are
    global. An optional property \<^verbatim>\<open>f?: T\<close> is a field of type \<open>T option\<close>, \<open>None\<close>
    being \<^verbatim>\<open>undefined\<close>.
    The constant property \<^verbatim>\<open>schema_version: 1\<close> is left out of every record.
  \<^item> A string is a \<open>string\<close> of single-byte characters.
  \<^item> A \<^verbatim>\<open>number\<close> is a \<open>number\<close>: \<^verbatim>\<open>NaN\<close>, an infinity, or a finite double read as the
    real it denotes (the two zeros are one value). Comparisons of doubles are comparisons of
    these reals; the one place where the source multiplies and rounds doubles is taken as
    a parameter.
  \<^item> Every reading of the clock (\<^verbatim>\<open>new Date()\<close>) and of \<^verbatim>\<open>Math.random()\<close> is an
    explicit argument: the ISO text of the instant, and the base-36 text of the random number.
\<close>

subsection \<open>models/goal.ts\<close>

datatype number = NaN | NegInf | Num real | PosInf

datatype GoalStatus = Active | Paused | Completed | Abandoned | Blocked

datatype Priority = High | Medium | Low

datatype VerificationMethod = Manual | Automated | Hybrid

datatype BranchStatus = BranchActive | BranchMerged | BranchAbandoned

datatype AgentStatus = AgentPending | AgentActive | AgentCompleted | AgentFailed

record Verification =
  v_criteria :: "string list"
  v_method :: VerificationMethod
  v_test_commands :: "string list option"

text \<open>\<^verbatim>\<open>Partial<Verification>\<close>: every property optional.\<close>

record PartialVerification =
  pv_criteria :: "string list option"
  pv_method :: "VerificationMethod option"
  pv_test_commands :: "string list option"

record SessionReference =
  sr_session_id :: string
  sr_date :: string
  sr_summary :: string

record AgentAssignment =
  aa_id :: string
  aa_task :: string
  aa_status :: AgentStatus
  aa_started :: "string option"
  aa_completed :: "string option"

record Decision =
  d_decision :: string
  d_rationale :: string
  d_date :: string
  d_reversible :: bool

record GoalContext =
  c_primary_files :: "string list"
  c_related_files :: "string list option"
  c_sessions :: "SessionReference list"
  c_agents :: "AgentAssignment list"
  c_learnings :: "string list"
  c_decisions :: "Decision list"

record BranchReference =
  br_id :: string
  br_name :: string
  br_status :: BranchStatus
  br_reason :: "string option"
  br_snapshot :: "string option"
  br_current :: "bool option"

record Goal =
  g_id :: string
  g_created :: string
  g_updated :: string
  g_current_state :: string
  g_desired_state :: string
  g_verification :: Verification
  g_status :: GoalStatus
  g_progress :: number
  g_title :: string
  g_description :: string
  g_tags :: "string list"
  g_project :: string
  g_priority :: Priority
  g_parent :: "string option"
  g_children :: "string list"
  g_depends_on :: "string list"
  g_informs :: "string list"
  g_evolved_from :: "string option"
  g_context :: GoalContext
  g_branches :: "BranchReference list"
  g_snapshots :: "string list"
  g_created_by :: string
  g_last_touched_by :: string

record CreateGoalInput =
  ci_title :: string
  ci_current_state :: string
  ci_desired_state :: string
  ci_project :: string
  ci_description :: "string option"
  ci_tags :: "string list option"
  ci_priority :: "Priority option"
  ci_parent :: "string option"
  ci_verification :: "PartialVerification option"

record UpdateGoalInput =
  ui_title :: "string option"
  ui_current_state :: "string option"
  ui_desired_state :: "string option"
  ui_description :: "string option"
  ui_status :: "GoalStatus option"
  ui_progress :: "number option"
  ui_tags :: "string list option"
  ui_priority :: "Priority option"
  ui_verification :: "PartialVerification option"

text \<open>
  \<^verbatim>\<open>now.toISOString().replace(/[-:T]/g, '').slice(0, 14)\<close>: the instant without its
  separators, cut after the seconds.
\<close>

definition timestamp14 :: "string \<Rightarrow> string" where
  "timestamp14 t = take 14 (filter (\<lambda>c. c \<noteq> CHR ''-'' \<and> c \<noteq> CHR '':'' \<and> c \<noteq> CHR ''T'') t)"

text \<open>\<^verbatim>\<open>s.slice(a, b)\<close> for \<open>0 \<le> a \<le> b\<close>.\<close>

definition slice :: "nat \<Rightarrow> nat \<Rightarrow> string \<Rightarrow> string" where
  "slice a b s = take (b - a) (drop a s)"

definition generateGoalId :: "string \<Rightarrow> string \<Rightarrow> string" where
  "generateGoalId now rnd = ''goal_'' @ timestamp14 now @ slice 2 6 rnd"

text \<open>\<^verbatim>\<open>x || d\<close> on an optional string: the default also replaces the empty string.\<close>

definition or_string :: "string option \<Rightarrow> string \<Rightarrow> string" where
  "or_string x d = (case x of None \<Rightarrow> d | Some s \<Rightarrow> if s = [] then d else s)"

text \<open>\<^verbatim>\<open>x || d\<close> on an optional array or enum value, which is truthy whenever defined.\<close>

definition or_default :: "'a option \<Rightarrow> 'a \<Rightarrow> 'a" where
  "or_default x d = (case x of None \<Rightarrow> d | Some v \<Rightarrow> v)"

text \<open>\<^verbatim>\<open>input.verification?.f\<close>\<close>

definition opt_chain :: "'a option \<Rightarrow> ('a \<Rightarrow> 'b option) \<Rightarrow> 'b option" where
  "opt_chain x f = (case x of None \<Rightarrow> None | Some v \<Rightarrow> f v)"

definition empty_context :: GoalContext where
  "empty_context = \<lparr> c_primary_files = [], c_related_files = Some [], c_sessions = [],
     c_agents = [], c_learnings = [], c_decisions = [] \<rparr>"

definition main_branch_ref :: BranchReference where
  "main_branch_ref = \<lparr> br_id = ''branch_main'', br_name = ''main'', br_status = BranchActive,
     br_reason = None, br_snapshot = None, br_current = Some True \<rparr>"

text \<open>
  \<open>createGoal now idnow rnd input createdBy\<close>: \<open>now\<close> is the clock read by \<^verbatim>\<open>createGoal\<close>,
  \<open>idnow\<close> and \<open>rnd\<close> the clock and the random number read by \<^verbatim>\<open>generateGoalId\<close>.
  The function has no failing branch.
\<close>

definition createGoal :: "string \<Rightarrow> string \<Rightarrow> string \<Rightarrow> CreateGoalInput \<Rightarrow> string \<Rightarrow> Goal" where
  "createGoal now idnow rnd input createdBy =
     \<lparr> g_id = generateGoalId idnow rnd,
       g_created = now,
       g_updated = now,
       g_current_state = ci_current_state input,
       g_desired_state = ci_desired_state input,
       g_verification =
         \<lparr> v_criteria = or_default (opt_chain (ci_verification input) pv_criteria) [],
           v_method = or_default (opt_chain (ci_verification input) pv_method) Manual,
           v_test_commands = opt_chain (ci_verification input) pv_test_commands \<rparr>,
       g_status = Active,
       g_progress = Num 0,
       g_title = ci_title input,
       g_description = or_string (ci_description input) [],
       g_tags = or_default (ci_tags input) [],
       g_project = ci_project input,
       g_priority = or_default (ci_priority input) Medium,
       g_parent = ci_parent input,
       g_children = [],
       g_depends_on = [],
       g_informs = [],
       g_evolved_from = None,
       g_context = empty_context,
       g_branches = [main_branch_ref],
       g_snapshots = [],
       g_created_by = createdBy,
       g_last_touched_by = createdBy \<rparr>"

text \<open>
  \<^verbatim>\<open>{ ...goal.verification, ...input.verification }\<close>: a property of the patch that is
  present replaces the goal's.
\<close>

definition merge_verification :: "Verification \<Rightarrow> PartialVerification \<Rightarrow> Verification" where
  "merge_verification v p =
     \<lparr> v_criteria = or_default (pv_criteria p) (v_criteria v),
       v_method = or_default (pv_method p) (v_method v),
       v_test_commands = (case pv_test_commands p of None \<Rightarrow> v_test_commands v | Some t \<Rightarrow> Some t) \<rparr>"

text \<open>
  \<^verbatim>\<open>{ ...goal, ...input, updated, last_touched_by, verification }\<close>: every property present
  in the patch replaces the goal's, as it is. The patch is taken to have the properties
  \<^verbatim>\<open>UpdateGoalInput\<close> declares and no other, each absent or holding a value.
\<close>

definition updateGoal :: "string \<Rightarrow> Goal \<Rightarrow> UpdateGoalInput \<Rightarrow> string \<Rightarrow> Goal" where
  "updateGoal now goal input updatedBy =
     goal \<lparr> g_title := or_default (ui_title input) (g_title goal),
            g_current_state := or_default (ui_current_state input) (g_current_state goal),
            g_desired_state := or_default (ui_desired_state input) (g_desired_state goal),
            g_description := or_default (ui_description input) (g_description goal),
            g_status := or_default (ui_status input) (g_status goal),
            g_progress := or_default (ui_progress input) (g_progress goal),
            g_tags := or_default (ui_tags input) (g_tags goal),
            g_priority := or_default (ui_priority input) (g_priority goal),
            g_updated := now,
            g_last_touched_by := updatedBy,
            g_verification := (case ui_verification input of
                                 None \<Rightarrow> g_verification goal
                               | Some p \<Rightarrow> merge_verification (g_verification goal) p) \<rparr>"

subsection \<open>models/snapshot.ts\<close>

datatype SnapshotTrigger = TManual | TAutoProgress | TBranchCreate | TMilestone | TSessionEnd

text \<open>The values of type \<^verbatim>\<open>unknown\<close> that the service compares: numbers and strings.\<close>

datatype unknown = UNum number | UStr string

record FieldChange =
  fc_field :: string
  fc_from :: "unknown option"
  fc_to :: "unknown option"
  fc_added :: "unknown option"
  fc_removed :: "unknown option"

record Snapshot =
  s_id :: string
  s_goal_id :: string
  s_created :: string
  s_trigger :: SnapshotTrigger
  s_current_state :: string
  s_desired_state :: string
  s_progress :: number
  s_status :: GoalStatus
  s_event :: string
  s_summary :: string
  s_changes :: "FieldChange list"
  s_previous_snapshot :: "string option"
  s_branch :: string
  s_session :: "string option"

definition generateSnapshotId :: "string \<Rightarrow> string \<Rightarrow> string" where
  "generateSnapshotId now rnd = ''snap_'' @ timestamp14 now @ slice 2 4 rnd"

text \<open>\<^verbatim>\<open>b.current\<close> as a condition: true only for the flag \<^verbatim>\<open>true\<close>.\<close>

definition is_current :: "BranchReference \<Rightarrow> bool" where
  "is_current b = (br_current b = Some True)"

text \<open>\<^verbatim>\<open>goal.branches.find((b) => b.current)?.id || 'branch_main'\<close>\<close>

definition currentBranchId :: "BranchReference list \<Rightarrow> string" where
  "currentBranchId bs = or_string (map_option br_id (find is_current bs)) ''branch_main''"

text \<open>\<^verbatim>\<open>xs.length > 0 ? xs[xs.length - 1] : d\<close>\<close>

definition last_or :: "'a list \<Rightarrow> 'b \<Rightarrow> ('a \<Rightarrow> 'b) \<Rightarrow> 'b" where
  "last_or xs d f = (if length xs > 0 then f (last xs) else d)"

text \<open>
  \<open>createSnapshot idnow rnd now goal event summary trigger changes session\<close>: \<open>idnow\<close> and
  \<open>rnd\<close> are read by \<^verbatim>\<open>generateSnapshotId\<close>, \<open>now\<close> is the instant of \<^verbatim>\<open>created\<close>.
\<close>

definition createSnapshot ::
  "string \<Rightarrow> string \<Rightarrow> string \<Rightarrow> Goal \<Rightarrow> string \<Rightarrow> string \<Rightarrow> SnapshotTrigger \<Rightarrow>
     FieldChange list \<Rightarrow> string option \<Rightarrow> Snapshot" where
  "createSnapshot idnow rnd now goal event summary trigger changes session =
     (let currentBranch = currentBranchId (g_branches goal);
          previousSnapshot = last_or (g_snapshots goal) None Some
      in \<lparr> s_id = generateSnapshotId idnow rnd,
           s_goal_id = g_id goal,
           s_created = now,
           s_trigger = trigger,
           s_current_state = g_current_state goal,
           s_desired_state = g_desired_state goal,
           s_progress = g_progress goal,
           s_status = g_status goal,
           s_event = event,
           s_summary = summary,
           s_changes = changes,
           s_previous_snapshot = previousSnapshot,
           s_branch = currentBranch,
           s_session = session \<rparr>)"

text \<open>
  \<^verbatim>\<open>JSON.stringify\<close>, up to the spelling of a finite number or a string, which is one to
  one: \<^verbatim>\<open>undefined\<close> has no text, \<^verbatim>\<open>NaN\<close> and the infinities have the text \<^verbatim>\<open>null\<close>.
\<close>

datatype json_text = NoText | NullText | NumberText real | StringText string

definition stringify :: "unknown option \<Rightarrow> json_text" where
  "stringify v =
     (case v of
        None \<Rightarrow> NoText
      | Some (UStr s) \<Rightarrow> StringText s
      | Some (UNum n) \<Rightarrow> (case n of Num r \<Rightarrow> NumberText r | _ \<Rightarrow> NullText))"

text \<open>\<^verbatim>\<open>computeChanges\<close> compares \<^verbatim>\<open>JSON.stringify\<close> of the two values of each field.\<close>

definition computeChanges ::
  "(string \<Rightarrow> unknown option) \<Rightarrow> (string \<Rightarrow> unknown option) \<Rightarrow> string list \<Rightarrow> FieldChange list" where
  "computeChanges before after fieldNames =
     List.map_filter (\<lambda>field.
        if stringify (before field) \<noteq> stringify (after field)
        then Some \<lparr> fc_field = field, fc_from = before field, fc_to = after field,
                    fc_added = None, fc_removed = None \<rparr>
        else None) fieldNames"

definition default_fields :: "string list" where
  "default_fields = [''progress'', ''status'', ''current_state'', ''desired_state'']"

definition status_name :: "GoalStatus \<Rightarrow> string" where
  "status_name s = (case s of Active \<Rightarrow> ''active'' | Paused \<Rightarrow> ''paused''
     | Completed \<Rightarrow> ''completed'' | Abandoned \<Rightarrow> ''abandoned'' | Blocked \<Rightarrow> ''blocked'')"

text \<open>
  A goal read as \<^verbatim>\<open>Record<string, unknown>\<close>, on the properties the service compares
  (the default field set of \<^verbatim>\<open>computeChanges\<close>).
\<close>

definition goal_property :: "Goal \<Rightarrow> string \<Rightarrow> unknown option" where
  "goal_property g f =
     (if f = ''progress'' then Some (UNum (g_progress g))
      else if f = ''status'' then Some (UStr (status_name (g_status g)))
      else if f = ''current_state'' then Some (UStr (g_current_state g))
      else if f = ''desired_state'' then Some (UStr (g_desired_state g))
      else None)"

subsection \<open>models/branch.ts\<close>

record BranchResolution =
  res_status :: BranchStatus
  res_reason :: "string option"
  res_decided :: string
  res_decided_by :: string

record Branch =
  b_id :: string
  b_goal_id :: string
  b_created :: string
  b_updated :: string
  b_name :: string
  b_description :: string
  b_status :: BranchStatus
  b_parent_branch :: string
  b_branch_point :: string
  b_current_state :: "string option"
  b_progress :: "number option"
  b_snapshots :: "string list"
  b_resolution :: "BranchResolution option"
  b_merged_to :: "string option"
  b_merge_snapshot :: "string option"

definition code_of :: "char \<Rightarrow> nat" where
  "code_of c = of_char c"

text \<open>\<^verbatim>\<open>s.toLowerCase()\<close> on the letters A to Z; every other character stays as it is.\<close>

definition toLowerCase :: "string \<Rightarrow> string" where
  "toLowerCase s = map (\<lambda>c. if 65 \<le> code_of c \<and> code_of c \<le> 90 then char_of (code_of c + 32) else c) s"

text \<open>A character of the class \<^verbatim>\<open>[a-z0-9]\<close>.\<close>

definition slug_char :: "char \<Rightarrow> bool" where
  "slug_char c = ((97 \<le> code_of c \<and> code_of c \<le> 122) \<or> (48 \<le> code_of c \<and> code_of c \<le> 57))"

text \<open>\<^verbatim>\<open>s.replace(/[^a-z0-9]+/g, '_')\<close>: every maximal run of other characters becomes one \<^verbatim>\<open>_\<close>.\<close>

function slugify :: "string \<Rightarrow> string" where
  "slugify [] = []"
| "slugify (c # cs) =
     (if slug_char c then c # slugify cs
      else CHR ''_'' # slugify (dropWhile (\<lambda>d. \<not> slug_char d) cs))"
  by pat_completeness auto
termination
  by (relation "measure length") (auto simp: length_dropWhile_le less_Suc_eq_le)

definition generateBranchId :: "string \<Rightarrow> string" where
  "generateBranchId name = ''branch_'' @ slice 0 20 (slugify (toLowerCase name))"

definition createBranch :: "string \<Rightarrow> Goal \<Rightarrow> string \<Rightarrow> string \<Rightarrow> Branch" where
  "createBranch now goal name description =
     (let currentBranch = currentBranchId (g_branches goal);
          latestSnapshot = last_or (g_snapshots goal) [] (\<lambda>x. x)
      in \<lparr> b_id = generateBranchId name,
           b_goal_id = g_id goal,
           b_created = now,
           b_updated = now,
           b_name = name,
           b_description = description,
           b_status = BranchActive,
           b_parent_branch = currentBranch,
           b_branch_point = latestSnapshot,
           b_current_state = None,
           b_progress = None,
           b_snapshots = [],
           b_resolution = None,
           b_merged_to = None,
           b_merge_snapshot = None \<rparr>)"

subsection \<open>models/project.ts\<close>

record AgentConfig =
  ac_type :: string
  ac_config :: "(string \<times> unknown) list"

record Project =
  p_id :: string
  p_name :: string
  p_path :: string
  p_created :: string
  p_updated :: string
  p_repo :: "string option"
  p_branch :: "string option"
  p_aliases :: "string list"
  p_auto_detect :: bool
  p_description :: string
  p_active_goals :: "string list"
  p_paused_goals :: "string list"
  p_completed_goals :: "string list"
  p_abandoned_goals :: "string list"
  p_default_agents :: "AgentConfig list"
  p_tech_stack :: "string list"
  p_conventions :: "string list"

text \<open>The parameter type \<^verbatim>\<open>'active' | 'paused' | 'completed' | 'abandoned'\<close>.\<close>

datatype ProjectGoalStatus = PActive | PPaused | PCompleted | PAbandoned

text \<open>The first half of \<^verbatim>\<open>addGoalToProject\<close>: the copy with \<open>goalId\<close> filtered out of all four lists.\<close>

definition removeFromAll :: "string \<Rightarrow> Project \<Rightarrow> string \<Rightarrow> Project" where
  "removeFromAll now project goalId =
     project \<lparr> p_updated := now,
               p_active_goals := filter (\<lambda>i. i \<noteq> goalId) (p_active_goals project),
               p_paused_goals := filter (\<lambda>i. i \<noteq> goalId) (p_paused_goals project),
               p_completed_goals := filter (\<lambda>i. i \<noteq> goalId) (p_completed_goals project),
               p_abandoned_goals := filter (\<lambda>i. i \<noteq> goalId) (p_abandoned_goals project) \<rparr>"

definition addGoalToProject :: "string \<Rightarrow> Project \<Rightarrow> string \<Rightarrow> ProjectGoalStatus \<Rightarrow> Project" where
  "addGoalToProject now project goalId status =
     (let updated = removeFromAll now project goalId
      in case status of
           PActive \<Rightarrow> updated \<lparr> p_active_goals := p_active_goals updated @ [goalId] \<rparr>
         | PPaused \<Rightarrow> updated \<lparr> p_paused_goals := p_paused_goals updated @ [goalId] \<rparr>
         | PCompleted \<Rightarrow> updated \<lparr> p_completed_goals := p_completed_goals updated @ [goalId] \<rparr>
         | PAbandoned \<Rightarrow> updated \<lparr> p_abandoned_goals := p_abandoned_goals updated @ [goalId] \<rparr>)"

text \<open>\<^verbatim>\<open>s.replace(/\/+$/, '')\<close>\<close>

definition stripTrailingSlashes :: "string \<Rightarrow> string" where
  "stripTrailingSlashes s = rev (dropWhile (\<lambda>c. c = CHR ''/'') (rev s))"

definition startsWith :: "string \<Rightarrow> string \<Rightarrow> bool" where
  "startsWith s p = (take (length p) s = p)"

definition pathMatches :: "string \<Rightarrow> string \<Rightarrow> bool" where
  "pathMatches normalizedTestPath base =
     (normalizedTestPath = base \<or> startsWith normalizedTestPath (base @ ''/''))"

definition pathMatchesProject :: "Project \<Rightarrow> string \<Rightarrow> bool" where
  "pathMatchesProject project testPath =
     (if \<not> p_auto_detect project then False
      else let normalizedTestPath = stripTrailingSlashes testPath
           in if pathMatches normalizedTestPath (p_path project) then True
              else list_ex (\<lambda>alias. pathMatches normalizedTestPath (stripTrailingSlashes alias))
                     (p_aliases project))"

text \<open>One round of the loop of \<^verbatim>\<open>findBestMatchingProject\<close> on the pair (best match, its length).\<close>

definition bestMatchStep :: "string \<Rightarrow> Project option \<times> nat \<Rightarrow> Project \<Rightarrow> Project option \<times> nat" where
  "bestMatchStep testPath best project =
     (if \<not> pathMatchesProject project testPath then best
      else let best1 = (if length (p_path project) > snd best
                        then (Some project, length (p_path project)) else best)
           in foldl (\<lambda>b alias. if startsWith testPath alias \<and> length alias > snd b
                                then (Some project, length alias) else b)
                best1 (p_aliases project))"

definition findBestMatchingProject :: "Project list \<Rightarrow> string \<Rightarrow> Project option" where
  "findBestMatchingProject projects testPath = fst (foldl (bestMatchStep testPath) (None, 0) projects)"

subsection \<open>models/index.ts\<close>

text \<open>
  A \<^verbatim>\<open>Record<string, T>\<close> is the list of its properties in the order of their creation,
  which is the order in which JavaScript enumerates and serialises keys that are not array
  indices. Keys are taken not to collide with the members of \<^verbatim>\<open>Object.prototype\<close>.
\<close>

type_synonym 'v js_record = "(string \<times> 'v) list"

record GoalIndexEntry =
  e_title :: string
  e_status :: string
  e_progress :: number
  e_project :: string
  e_parent :: "string option"
  e_children :: "string list"
  e_tags :: "string list"
  e_updated :: string

datatype EdgeType = EParent | EChild | EDependsOn | EInforms | EEvolvedFrom

record GraphEdge =
  ge_from :: string
  ge_to :: string
  ge_type :: EdgeType

record GoalIndex =
  ix_generated :: string
  ix_goals :: "GoalIndexEntry js_record"
  ix_by_status :: "string list js_record"
  ix_by_project :: "string list js_record"
  ix_by_tag :: "string list js_record"
  ix_edges :: "GraphEdge list"

definition createEmptyIndex :: "string \<Rightarrow> GoalIndex" where
  "createEmptyIndex now = \<lparr> ix_generated = now, ix_goals = [], ix_by_status = [],
     ix_by_project = [], ix_by_tag = [], ix_edges = [] \<rparr>"

text \<open>\<^verbatim>\<open>r[k] = v\<close>: an existing property keeps its place, a new one goes last.\<close>

fun rec_set :: "('k \<times> 'v) list \<Rightarrow> 'k \<Rightarrow> 'v \<Rightarrow> ('k \<times> 'v) list" where
  "rec_set [] k v = [(k, v)]"
| "rec_set ((k', v') # r) k v = (if k' = k then (k, v) # r else (k', v') # rec_set r k v)"

text \<open>\<^verbatim>\<open>if (!r[k]) { r[k] = []; }  r[k].push(x);\<close>\<close>

definition rec_push :: "'a list js_record \<Rightarrow> string \<Rightarrow> 'a \<Rightarrow> 'a list js_record" where
  "rec_push r k x = (case map_of r k of None \<Rightarrow> rec_set r k [x] | Some xs \<Rightarrow> rec_set r k (xs @ [x]))"

text \<open>
  \<^verbatim>\<open>if (x) { ... x ... }\<close> on an optional string runs its body when \<open>x\<close> is defined and not
  empty (\<open>edgeIf\<close> below, and the loop of \<^verbatim>\<open>getAncestors\<close>).
\<close>

subsection \<open>storage/index-builder.ts: building\<close>

definition goalEntry :: "Goal \<Rightarrow> GoalIndexEntry" where
  "goalEntry goal = \<lparr> e_title = g_title goal, e_status = status_name (g_status goal),
     e_progress = g_progress goal, e_project = g_project goal, e_parent = g_parent goal,
     e_children = g_children goal, e_tags = g_tags goal, e_updated = g_updated goal \<rparr>"

text \<open>The edges one goal contributes, in the order the loop body pushes them.\<close>

definition edgeIf :: "string option \<Rightarrow> (string \<Rightarrow> GraphEdge) \<Rightarrow> GraphEdge list" where
  "edgeIf x mk = (case x of None \<Rightarrow> [] | Some i \<Rightarrow> if i \<noteq> [] then [mk i] else [])"

definition goalEdges :: "Goal \<Rightarrow> GraphEdge list" where
  "goalEdges goal =
     edgeIf (g_parent goal) (\<lambda>parent. \<lparr> ge_from = parent, ge_to = g_id goal, ge_type = EParent \<rparr>)
     @ map (\<lambda>childId. \<lparr> ge_from = g_id goal, ge_to = childId, ge_type = EChild \<rparr>) (g_children goal)
     @ map (\<lambda>depId. \<lparr> ge_from = g_id goal, ge_to = depId, ge_type = EDependsOn \<rparr>) (g_depends_on goal)
     @ map (\<lambda>informsId. \<lparr> ge_from = g_id goal, ge_to = informsId, ge_type = EInforms \<rparr>) (g_informs goal)
     @ edgeIf (g_evolved_from goal)
         (\<lambda>evolved. \<lparr> ge_from = evolved, ge_to = g_id goal, ge_type = EEvolvedFrom \<rparr>)"

text \<open>The body of the loop of \<^verbatim>\<open>buildIndex\<close>.\<close>

definition indexGoal :: "GoalIndex \<Rightarrow> Goal \<Rightarrow> GoalIndex" where
  "indexGoal index goal =
     index \<lparr> ix_goals := rec_set (ix_goals index) (g_id goal) (goalEntry goal),
             ix_by_status := rec_push (ix_by_status index) (status_name (g_status goal)) (g_id goal),
             ix_by_project := rec_push (ix_by_project index) (g_project goal) (g_id goal),
             ix_by_tag := foldl (\<lambda>r tag. rec_push r tag (g_id goal)) (ix_by_tag index) (g_tags goal),
             ix_edges := ix_edges index @ goalEdges goal \<rparr>"

text \<open>
  \<open>buildIndex now0 now1 goals\<close>: \<open>now0\<close> is the clock read by \<^verbatim>\<open>createEmptyIndex\<close>, \<open>now1\<close>
  the one \<^verbatim>\<open>buildIndex\<close> stores in \<^verbatim>\<open>generated\<close>.
\<close>

definition buildIndex :: "string \<Rightarrow> string \<Rightarrow> Goal list \<Rightarrow> GoalIndex" where
  "buildIndex now0 now1 goals = foldl indexGoal ((createEmptyIndex now0) \<lparr> ix_generated := now1 \<rparr>) goals"

subsection \<open>storage/yaml-store.ts\<close>

text \<open>
  The store is modelled at the level of records. A directory is the list of its files in
  the order \<^verbatim>\<open>readdirSync\<close> reports them, a file \<^verbatim>\<open><id>.yaml\<close> being the pair of \<open>id\<close> and
  the record it holds; this is exact for identities that are file names (no path separator,
  no \<^verbatim>\<open>.yaml\<close> inside), as the generated ones are. Writing a file is \<open>rec_set\<close>;
  \<^verbatim>\<open>ensureDirectories\<close> has no effect on the files. Reading a file gives back the record
  written.
\<close>

record Store =
  st_active :: "(string \<times> Goal) list"
  st_archived :: "(string \<times> Goal) list"
  st_snapshots :: "((string \<times> string) \<times> Snapshot) list"
  st_branches :: "((string \<times> string) \<times> Branch) list"
  st_projects :: "(string \<times> Project) list"
  st_index :: "GoalIndex option"

definition unlink :: "('k \<times> 'v) list \<Rightarrow> 'k \<Rightarrow> ('k \<times> 'v) list" where
  "unlink dir k = filter (\<lambda>f. fst f \<noteq> k) dir"

definition saveGoal :: "Store \<Rightarrow> Goal \<Rightarrow> Store" where
  "saveGoal st goal = st \<lparr> st_active := rec_set (st_active st) (g_id goal) goal \<rparr>"

definition loadGoal :: "Store \<Rightarrow> string \<Rightarrow> Goal option" where
  "loadGoal st goalId =
     (case map_of (st_active st) goalId of
        Some goal \<Rightarrow> Some goal
      | None \<Rightarrow> map_of (st_archived st) goalId)"

text \<open>\<^verbatim>\<open>renameSync\<close> takes the file out of the active directory and replaces the target.\<close>

definition archiveGoal :: "Store \<Rightarrow> string \<Rightarrow> bool \<times> Store" where
  "archiveGoal st goalId =
     (case map_of (st_active st) goalId of
        None \<Rightarrow> (False, st)
      | Some goal \<Rightarrow>
          (True, st \<lparr> st_active := unlink (st_active st) goalId,
                      st_archived := rec_set (st_archived st) goalId goal \<rparr>))"

definition listGoals :: "Store \<Rightarrow> bool \<Rightarrow> string list" where
  "listGoals st includeArchived =
     (let activeFiles = map fst (st_active st)
      in if \<not> includeArchived then activeFiles
         else activeFiles @ map fst (st_archived st))"

definition loadAllGoals :: "Store \<Rightarrow> bool \<Rightarrow> Goal list" where
  "loadAllGoals st includeArchived = List.map_filter (loadGoal st) (listGoals st includeArchived)"

definition saveSnapshot :: "Store \<Rightarrow> Snapshot \<Rightarrow> Store" where
  "saveSnapshot st snapshot =
     st \<lparr> st_snapshots := rec_set (st_snapshots st) (s_goal_id snapshot, s_id snapshot) snapshot \<rparr>"

definition saveBranch :: "Store \<Rightarrow> Branch \<Rightarrow> Store" where
  "saveBranch st branch =
     st \<lparr> st_branches := rec_set (st_branches st) (b_goal_id branch, b_id branch) branch \<rparr>"

definition saveProject :: "Store \<Rightarrow> Project \<Rightarrow> Store" where
  "saveProject st project = st \<lparr> st_projects := rec_set (st_projects st) (p_id project) project \<rparr>"

definition loadProject :: "Store \<Rightarrow> string \<Rightarrow> Project option" where
  "loadProject st projectId = map_of (st_projects st) projectId"

definition loadAllProjects :: "Store \<Rightarrow> Project list" where
  "loadAllProjects st = List.map_filter (loadProject st) (map fst (st_projects st))"

definition findProjectByPath :: "Store \<Rightarrow> string \<Rightarrow> Project option" where
  "findProjectByPath st path = findBestMatchingProject (loadAllProjects st) path"

definition saveIndex :: "Store \<Rightarrow> GoalIndex \<Rightarrow> Store" where
  "saveIndex st index = st \<lparr> st_index := Some index \<rparr>"

definition loadIndex :: "Store \<Rightarrow> GoalIndex option" where
  "loadIndex st = st_index st"

subsection \<open>storage/index-builder.ts: rebuilding and queries\<close>

definition rebuildIndex :: "string \<Rightarrow> string \<Rightarrow> Store \<Rightarrow> GoalIndex \<times> Store" where
  "rebuildIndex now0 now1 st =
     (let goals = loadAllGoals st True;
          index = buildIndex now0 now1 goals
      in (index, saveIndex st index))"

definition getIndex :: "string \<Rightarrow> string \<Rightarrow> Store \<Rightarrow> GoalIndex \<times> Store" where
  "getIndex now0 now1 st =
     (case loadIndex st of
        Some cached \<Rightarrow> (cached, st)
      | None \<Rightarrow> rebuildIndex now0 now1 st)"

text \<open>
  The queries call \<^verbatim>\<open>getIndex()\<close> each time. Once an index is stored, \<open>getIndex\<close> returns it
  and leaves the store as it is, so all the calls of one walk see one index: the queries
  are modelled on that index.
\<close>

definition getParentGoal :: "GoalIndex \<Rightarrow> string \<Rightarrow> string option" where
  "getParentGoal index goalId = opt_chain (map_of (ix_goals index) goalId) e_parent"

text \<open>
  The loop \<^verbatim>\<open>while (current) { ancestors.push(current); current = getParentGoal(current); }\<close>
  on the pair of \<open>current\<close> and \<open>ancestors\<close>. The loop has no bound, so the model is a
  partial function: \<open>None\<close> is a walk that does not return.
\<close>

partial_function (option) ancestorsLoop :: "GoalIndex \<Rightarrow> string option \<Rightarrow> string list \<Rightarrow> string list option" where
  "ancestorsLoop index current ancestors =
     (case current of
        None \<Rightarrow> Some ancestors
      | Some c \<Rightarrow>
          if c = [] then Some ancestors
          else ancestorsLoop index (getParentGoal index c) (ancestors @ [c]))"

definition getAncestors :: "GoalIndex \<Rightarrow> string \<Rightarrow> string list option" where
  "getAncestors index goalId = ancestorsLoop index (getParentGoal index goalId) []"

subsection \<open>storage/goal-service.ts\<close>

text \<open>
  The readings of the clock and of the random source that one service call makes, each
  named after the function that reads it; and \<open>env_percent\<close>, the double arithmetic of the
  summaries: the text of \<^verbatim>\<open>${Math.round(x * 100)}\<close> for a number \<open>x\<close>.
\<close>

record Env =
  env_goal_now :: string
  env_goal_id_now :: string
  env_goal_rnd :: string
  env_update_now :: string
  env_snapshot_id_now :: string
  env_snapshot_rnd :: string
  env_snapshot_now :: string
  env_branch_now :: string
  env_project_now :: string
  env_index_now0 :: string
  env_index_now1 :: string
  env_percent :: "number \<Rightarrow> string"

record CreateGoalOptions =
  co_createdBy :: "string option"
  co_autoSnapshot :: "bool option"
  co_autoIndex :: "bool option"

record UpdateGoalOptions =
  uo_updatedBy :: "string option"
  uo_autoSnapshot :: "bool option"
  uo_snapshotEvent :: "string option"
  uo_autoIndex :: "bool option"

definition snapshotOf :: "Env \<Rightarrow> Goal \<Rightarrow> string \<Rightarrow> string \<Rightarrow> SnapshotTrigger \<Rightarrow> FieldChange list \<Rightarrow> Snapshot" where
  "snapshotOf env goal event summary trigger changes =
     createSnapshot (env_snapshot_id_now env) (env_snapshot_rnd env) (env_snapshot_now env)
       goal event summary trigger changes None"

definition reindex :: "Env \<Rightarrow> Store \<Rightarrow> Store" where
  "reindex env st = snd (rebuildIndex (env_index_now0 env) (env_index_now1 env) st)"

definition create :: "Env \<Rightarrow> Store \<Rightarrow> CreateGoalInput \<Rightarrow> CreateGoalOptions \<Rightarrow> Goal \<times> Store" where
  "create env st input options =
     (let createdBy = or_default (co_createdBy options) ''main'';
          autoSnapshot = or_default (co_autoSnapshot options) True;
          autoIndex = or_default (co_autoIndex options) True;
          goal0 = createGoal (env_goal_now env) (env_goal_id_now env) (env_goal_rnd env) input createdBy;
          st1 = saveGoal st goal0;
          (goal, st2) =
            (if autoSnapshot
             then let snapshot = snapshotOf env goal0 ''Goal created''
                                   (''Initial goal: '' @ g_title goal0) TManual [];
                      goal1 = goal0 \<lparr> g_snapshots := g_snapshots goal0 @ [s_id snapshot] \<rparr>
                  in (goal1, saveGoal (saveSnapshot st1 snapshot) goal1)
             else (goal0, st1));
          st3 = (case findProjectByPath st2 (ci_project input) of
                   None \<Rightarrow> st2
                 | Some project \<Rightarrow>
                     saveProject st2 (addGoalToProject (env_project_now env) project (g_id goal) PActive));
          st4 = (if autoIndex then reindex env st3 else st3)
      in (goal, st4))"

text \<open>\<^verbatim>\<open>x || 0\<close> on a number: \<^verbatim>\<open>NaN\<close> and zero are the two numbers that count as false.\<close>

definition orZero :: "number \<Rightarrow> number" where
  "orZero x = (if x = NaN \<or> x = Num 0 then Num 0 else x)"

text \<open>The arrow of the summaries, U+2192, as its three UTF-8 bytes.\<close>

definition arrow :: string where
  "arrow = [char_of (226::nat), char_of (134::nat), char_of (146::nat)]"

definition generateSnapshotEvent :: "UpdateGoalInput \<Rightarrow> string" where
  "generateSnapshotEvent input =
     (if ui_status input = Some Completed then ''Goal completed''
      else if ui_status input = Some Abandoned then ''Goal abandoned''
      else if ui_status input = Some Paused then ''Goal paused''
      else if ui_status input = Some Active then ''Goal resumed''
      else if ui_progress input \<noteq> None then ''Progress updated''
      else ''Goal updated'')"

definition summaryLine :: "(number \<Rightarrow> string) \<Rightarrow> Goal \<Rightarrow> Goal \<Rightarrow> FieldChange \<Rightarrow> string" where
  "summaryLine percent before after change =
     (if fc_field change = ''progress''
      then ''Progress: '' @ percent (orZero (g_progress before)) @ ''% '' @ arrow @ '' ''
             @ percent (orZero (g_progress after)) @ ''%''
      else if fc_field change = ''status''
      then ''Status: '' @ status_name (g_status before) @ '' '' @ arrow @ '' ''
             @ status_name (g_status after)
      else fc_field change @ '' updated'')"

text \<open>\<^verbatim>\<open>lines.join('\n')\<close>\<close>

fun joinLines :: "string list \<Rightarrow> string" where
  "joinLines [] = []"
| "joinLines [l] = l"
| "joinLines (l # ls) = l @ [char_of (10::nat)] @ joinLines ls"

definition generateSnapshotSummary ::
  "(number \<Rightarrow> string) \<Rightarrow> Goal \<Rightarrow> Goal \<Rightarrow> FieldChange list \<Rightarrow> string" where
  "generateSnapshotSummary percent before after changes =
     joinLines (map (summaryLine percent before after) changes)"

text \<open>
  The cast \<^verbatim>\<open>input.status as 'active' | 'paused' | 'completed' | 'abandoned'\<close>: \<^verbatim>\<open>'blocked'\<close>
  is none of the four, and then the \<^verbatim>\<open>switch\<close> of \<^verbatim>\<open>addGoalToProject\<close> inserts nothing.
\<close>

definition castStatus :: "GoalStatus \<Rightarrow> ProjectGoalStatus option" where
  "castStatus s = (case s of Active \<Rightarrow> Some PActive | Paused \<Rightarrow> Some PPaused
     | Completed \<Rightarrow> Some PCompleted | Abandoned \<Rightarrow> Some PAbandoned | Blocked \<Rightarrow> None)"

definition moveInProject :: "string \<Rightarrow> Project \<Rightarrow> string \<Rightarrow> GoalStatus \<Rightarrow> Project" where
  "moveInProject now project goalId status =
     (case castStatus status of
        Some s \<Rightarrow> addGoalToProject now project goalId s
      | None \<Rightarrow> removeFromAll now project goalId)"

definition update :: "Env \<Rightarrow> Store \<Rightarrow> string \<Rightarrow> UpdateGoalInput \<Rightarrow> UpdateGoalOptions \<Rightarrow> Goal option \<times> Store" where
  "update env st goalId input options =
     (let updatedBy = or_default (uo_updatedBy options) ''main'';
          autoSnapshot = or_default (uo_autoSnapshot options) True;
          autoIndex = or_default (uo_autoIndex options) True
      in case loadGoal st goalId of
           None \<Rightarrow> (None, st)
         | Some previousState \<Rightarrow>
             (let updated0 = updateGoal (env_update_now env) previousState input updatedBy;
                  changes = computeChanges (goal_property previousState) (goal_property updated0)
                              default_fields;
                  (updatedGoal, st1) =
                    (if autoSnapshot \<and> (ui_progress input \<noteq> None \<or> ui_status input \<noteq> None)
                        \<and> length changes > 0
                     then let event = or_string (uo_snapshotEvent options) (generateSnapshotEvent input);
                              summary = generateSnapshotSummary (env_percent env) previousState updated0 changes;
                              snapshot = snapshotOf env updated0 event summary TAutoProgress changes
                          in (updated0 \<lparr> g_snapshots := g_snapshots updated0 @ [s_id snapshot] \<rparr>,
                              saveSnapshot st snapshot)
                     else (updated0, st));
                  st2 = saveGoal st1 updatedGoal;
                  st3 = (case ui_status input of
                           None \<Rightarrow> st2
                         | Some status \<Rightarrow>
                             if status \<noteq> g_status previousState
                             then (case findProjectByPath st2 (g_project updatedGoal) of
                                     None \<Rightarrow> st2
                                   | Some project \<Rightarrow>
                                       saveProject st2
                                         (moveInProject (env_project_now env) project goalId status))
                             else st2);
                  st4 = (if autoIndex then reindex env st3 else st3)
              in (Some updatedGoal, st4)))"

definition archive :: "Env \<Rightarrow> Store \<Rightarrow> string \<Rightarrow> bool \<Rightarrow> bool \<times> Store" where
  "archive env st goalId autoIndex =
     (let (result, st1) = archiveGoal st goalId
      in (result, if result \<and> autoIndex then reindex env st1 else st1))"

definition no_patch :: UpdateGoalInput where
  "no_patch = \<lparr> ui_title = None, ui_current_state = None, ui_desired_state = None,
     ui_description = None, ui_status = None, ui_progress = None, ui_tags = None,
     ui_priority = None, ui_verification = None \<rparr>"

text \<open>
  The order of the numbers other than \<^verbatim>\<open>NaN\<close>, and \<^verbatim>\<open>Math.min\<close> and \<^verbatim>\<open>Math.max\<close> of two
  numbers, which are \<^verbatim>\<open>NaN\<close> as soon as one argument is.
\<close>

fun numLe :: "number \<Rightarrow> number \<Rightarrow> bool" where
  "numLe NaN y = False"
| "numLe x NaN = False"
| "numLe NegInf y = True"
| "numLe x PosInf = True"
| "numLe (Num a) (Num b) = (a \<le> b)"
| "numLe x y = False"

definition mathMin :: "number \<Rightarrow> number \<Rightarrow> number" where
  "mathMin x y = (if x = NaN \<or> y = NaN then NaN else if numLe x y then x else y)"

definition mathMax :: "number \<Rightarrow> number \<Rightarrow> number" where
  "mathMax x y = (if x = NaN \<or> y = NaN then NaN else if numLe x y then y else x)"

definition setProgress :: "Env \<Rightarrow> Store \<Rightarrow> string \<Rightarrow> number \<Rightarrow> string \<Rightarrow> Goal option \<times> Store" where
  "setProgress env st goalId progress updatedBy =
     (let clampedProgress = mathMax (Num 0) (mathMin (Num 1) progress)
      in update env st goalId (no_patch \<lparr> ui_progress := Some clampedProgress \<rparr>)
           \<lparr> uo_updatedBy = Some updatedBy, uo_autoSnapshot = None, uo_snapshotEvent = None,
             uo_autoIndex = None \<rparr>)"

definition createGoalBranch :: "Env \<Rightarrow> Store \<Rightarrow> string \<Rightarrow> string \<Rightarrow> string \<Rightarrow> Branch option \<times> Store" where
  "createGoalBranch env st goalId name description =
     (case loadGoal st goalId of
        None \<Rightarrow> (None, st)
      | Some goal0 \<Rightarrow>
          (let branchSnapshot = snapshotOf env goal0 (''Branch created: '' @ name)
                                  (''Starting exploration: '' @ (if description \<noteq> [] then description else name))
                                  TBranchCreate [];
               goal1 = goal0 \<lparr> g_snapshots := g_snapshots goal0 @ [s_id branchSnapshot] \<rparr>;
               st1 = saveSnapshot st branchSnapshot;
               branch = createBranch (env_branch_now env) goal1 name description;
               st2 = saveBranch st1 branch;
               goal2 = goal1 \<lparr> g_branches := g_branches goal1 @
                         [\<lparr> br_id = b_id branch, br_name = b_name branch, br_status = BranchActive,
                            br_reason = None, br_snapshot = None, br_current = None \<rparr>] \<rparr>;
               st3 = saveGoal st2 goal2
           in (Some branch, reindex env st3)))"

definition switchBranch :: "Store \<Rightarrow> string \<Rightarrow> string \<Rightarrow> Goal option \<times> Store" where
  "switchBranch st goalId branchId =
     (case loadGoal st goalId of
        None \<Rightarrow> (None, st)
      | Some goal0 \<Rightarrow>
          (let goal = goal0 \<lparr> g_branches :=
                        map (\<lambda>b. b \<lparr> br_current := Some (br_id b = branchId) \<rparr>) (g_branches goal0) \<rparr>
           in (Some goal, saveGoal st goal)))"

subsection \<open>Notions used to state the properties\<close>

text \<open>The list of a project that holds the goals of one status.\<close>

definition statusList :: "ProjectGoalStatus \<Rightarrow> Project \<Rightarrow> string list" where
  "statusList s p = (case s of PActive \<Rightarrow> p_active_goals p | PPaused \<Rightarrow> p_paused_goals p
     | PCompleted \<Rightarrow> p_completed_goals p | PAbandoned \<Rightarrow> p_abandoned_goals p)"

text \<open>
  \<^verbatim>\<open>addGoalToProject\<close> applied once per element of \<open>nows\<close> with the same goal and status,
  each application reading the clock anew.
\<close>

definition addRepeatedly :: "string list \<Rightarrow> Project \<Rightarrow> string \<Rightarrow> ProjectGoalStatus \<Rightarrow> Project" where
  "addRepeatedly nows project goalId status =
     foldl (\<lambda>p now. addGoalToProject now p goalId status) project nows"

text \<open>
  The parent the walk of \<^verbatim>\<open>getAncestors\<close> goes to from a goal: the denormalized parent
  entry, when it is defined and not empty.
\<close>

definition nextAncestor :: "GoalIndex \<Rightarrow> string \<Rightarrow> string option" where
  "nextAncestor index goalId =
     (case getParentGoal index goalId of None \<Rightarrow> None | Some p \<Rightarrow> if p = [] then None else Some p)"

text \<open>The first \<open>n\<close> ids met by following the parent entries from a goal, fewer if the chain ends.\<close>

fun parentChain :: "GoalIndex \<Rightarrow> nat \<Rightarrow> string \<Rightarrow> string list" where
  "parentChain index 0 goalId = []"
| "parentChain index (Suc n) goalId =
     (case nextAncestor index goalId of None \<Rightarrow> [] | Some p \<Rightarrow> p # parentChain index n p)"

text \<open>Following the parent entries from \<open>goalId\<close> never revisits an id.\<close>

definition acyclicFrom :: "GoalIndex \<Rightarrow> string \<Rightarrow> bool" where
  "acyclicFrom index goalId = (\<forall>n. distinct (goalId # parentChain index n goalId))"

text \<open>
  \<open>ancestorChain index goalId ps\<close>: \<open>ps\<close> are the ancestors of \<open>goalId\<close> from the nearest
  parent up, each the parent of the one before, the last without a parent.
\<close>

fun ancestorChain :: "GoalIndex \<Rightarrow> string \<Rightarrow> string list \<Rightarrow> bool" where
  "ancestorChain index goalId [] = (nextAncestor index goalId = None)"
| "ancestorChain index goalId (p # ps) = (nextAncestor index goalId = Some p \<and> ancestorChain index p ps)"

subsection \<open>Sample values\<close>

definition sampleInstant :: string where
  "sampleInstant = ''2026-01-02T03:04:05.678Z''"

definition sampleInput :: CreateGoalInput where
  "sampleInput = \<lparr> ci_title = ''Ship the parser'', ci_current_state = ''Not started'',
     ci_desired_state = ''To be defined'', ci_project = ''/home/u/app'', ci_description = None,
     ci_tags = None, ci_priority = None, ci_parent = None, ci_verification = None \<rparr>"

definition sampleGoal :: Goal where
  "sampleGoal = createGoal sampleInstant sampleInstant ''0.k3f9zq'' sampleInput ''main''"

text \<open>A sample of the arithmetic of the summaries: the product and its rounding taken exactly.\<close>

function digits :: "nat \<Rightarrow> string" where
  "digits n = (if n < 10 then [char_of (48 + n)] else digits (n div 10) @ [char_of (48 + n mod 10)])"
  by pat_completeness auto
termination
  by (relation "measure (\<lambda>n. n)") auto

definition showInt :: "int \<Rightarrow> string" where
  "showInt i = (if i < 0 then CHR ''-'' # digits (nat (- i)) else digits (nat i))"

definition samplePercent :: "number \<Rightarrow> string" where
  "samplePercent x = (case x of NaN \<Rightarrow> ''NaN'' | NegInf \<Rightarrow> ''-Infinity''
     | PosInf \<Rightarrow> ''Infinity'' | Num r \<Rightarrow> showInt \<lfloor>r * 100 + 1 / 2\<rfloor>)"

definition defaultUpdateOptions :: UpdateGoalOptions where
  "defaultUpdateOptions = \<lparr> uo_updatedBy = None, uo_autoSnapshot = None,
     uo_snapshotEvent = None, uo_autoIndex = None \<rparr>"

definition sampleEnv :: Env where
  "sampleEnv = \<lparr> env_goal_now = sampleInstant, env_goal_id_now = sampleInstant,
     env_goal_rnd = ''0.k3f9zq'', env_update_now = sampleInstant,
     env_snapshot_id_now = sampleInstant, env_snapshot_rnd = ''0.7hq2'',
     env_snapshot_now = sampleInstant, env_branch_now = sampleInstant,
     env_project_now = sampleInstant, env_index_now0 = sampleInstant,
     env_index_now1 = sampleInstant, env_percent = samplePercent \<rparr>"

definition emptyStore :: Store where
  "emptyStore = \<lparr> st_active = [], st_archived = [], st_snapshots = [], st_branches = [],
     st_projects = [], st_index = None \<rparr>"

definition sampleSnapshot :: Snapshot where
  "sampleSnapshot = createSnapshot sampleInstant ''0.7hq2'' sampleInstant sampleGoal
     ''created'' ''...'' TManual [] None"

definition sampleStore :: Store where
  "sampleStore = saveGoal emptyStore sampleGoal"

definition archivedStore :: Store where
  "archivedStore = snd (archiveGoal sampleStore (g_id sampleGoal))"

definition blankInput :: CreateGoalInput where
  "blankInput = \<lparr> ci_title = [], ci_current_state = [], ci_desired_state = [],
     ci_project = [], ci_description = None, ci_tags = None, ci_priority = None,
     ci_parent = None, ci_verification = None \<rparr>"

definition defaultOptions :: CreateGoalOptions where
  "defaultOptions = \<lparr> co_createdBy = None, co_autoSnapshot = None, co_autoIndex = None \<rparr>"

definition sampleEntry :: "string option \<Rightarrow> GoalIndexEntry" where
  "sampleEntry parent = \<lparr> e_title = ''t'', e_status = ''active'', e_progress = Num 0,
     e_project = ''/home/u/app'', e_parent = parent, e_children = [], e_tags = [],
     e_updated = sampleInstant \<rparr>"

definition sampleIndex :: GoalIndex where
  "sampleIndex = (createEmptyIndex sampleInstant)
     \<lparr> ix_goals := [(''a'', sampleEntry None), (''b'', sampleEntry (Some ''a'')),
                     (''c'', sampleEntry (Some ''b''))] \<rparr>"

definition cyclicIndex :: GoalIndex where
  "cyclicIndex = (createEmptyIndex sampleInstant)
     \<lparr> ix_goals := [(''x'', sampleEntry (Some ''y'')), (''y'', sampleEntry (Some ''x''))] \<rparr>"

definition sampleProject :: Project where
  "sampleProject = \<lparr> p_id = ''proj_app'', p_name = ''app'', p_path = ''/home/u/app'',
     p_created = sampleInstant, p_updated = sampleInstant, p_repo = None, p_branch = Some ''main'',
     p_aliases = [], p_auto_detect = True, p_description = [],
     p_active_goals = [''g1'', ''g2'', ''g1''], p_paused_goals = [''g1''],
     p_completed_goals = [''g3''], p_abandoned_goals = [],
     p_default_agents = [], p_tech_stack = [], p_conventions = [] \<rparr>"

section \<open>Properties\<close>

subsection \<open>Auxiliary facts\<close>

lemma map_of_rec_set: "map_of (rec_set r k v) k' = (if k' = k then Some v else map_of r k')"
  by (induction r) auto

lemma keys_unlink: "k \<notin> fst ` set (unlink dir k)"
  by (auto simp: unlink_def)

lemma map_of_unlink: "map_of (unlink dir k) k = None"
  by (simp add: map_of_eq_None_iff keys_unlink)

lemma reindex_fields:
  "st_active (reindex env st) = st_active st"
  "st_archived (reindex env st) = st_archived st"
  "st_snapshots (reindex env st) = st_snapshots st"
  "st_branches (reindex env st) = st_branches st"
  "st_projects (reindex env st) = st_projects st"
  by (simp_all add: reindex_def rebuildIndex_def saveIndex_def Let_def)

lemma loadGoal_reindex: "loadGoal (reindex env st) = loadGoal st"
  by (rule ext) (simp add: loadGoal_def reindex_fields split: option.split)

lemma listGoals_reindex: "listGoals (reindex env st) = listGoals st"
  by (rule ext) (simp add: listGoals_def reindex_fields Let_def)

lemma loadGoal_saveGoal: "k = g_id g \<Longrightarrow> loadGoal (saveGoal st g) k = Some g"
  by (simp add: loadGoal_def saveGoal_def map_of_rec_set)

lemma loadGoal_saveSnapshot: "loadGoal (saveSnapshot st s) = loadGoal st"
  by (rule ext) (simp add: loadGoal_def saveSnapshot_def split: option.split)

lemma loadGoal_saveBranch: "loadGoal (saveBranch st b) = loadGoal st"
  by (rule ext) (simp add: loadGoal_def saveBranch_def split: option.split)

lemma loadGoal_saveProject: "loadGoal (saveProject st p) = loadGoal st"
  by (rule ext) (simp add: loadGoal_def saveProject_def split: option.split)

subsection \<open>createGoal\<close>

text \<open>
  Claim C4. For every \<^verbatim>\<open>CreateGoalInput\<close>, and so for every valid one, \<open>createGoal\<close>
  produces a goal with progress 0, status active, a non-empty id, and exactly one branch
  reference flagged current, whose id is \<^verbatim>\<open>branch_main\<close>.
\<close>

theorem createGoal_defaults:
  "g_progress (createGoal now idnow rnd input createdBy) = Num 0
   \<and> g_status (createGoal now idnow rnd input createdBy) = Active
   \<and> g_id (createGoal now idnow rnd input createdBy) \<noteq> []
   \<and> length (filter is_current (g_branches (createGoal now idnow rnd input createdBy))) = 1
   \<and> map br_id (filter is_current (g_branches (createGoal now idnow rnd input createdBy)))
       = [''branch_main'']"
  by (simp add: createGoal_def generateGoalId_def main_branch_ref_def is_current_def)

theorem createGoal_defaults_witness:
  "g_id sampleGoal = ''goal_20260102030405k3f9''
   \<and> g_progress sampleGoal = Num 0 \<and> g_status sampleGoal = Active
   \<and> map br_id (filter is_current (g_branches sampleGoal)) = [''branch_main'']"
  using createGoal_defaults [of sampleInstant sampleInstant "''0.k3f9zq''" sampleInput "''main''"]
  by (simp add: sampleGoal_def sampleInstant_def createGoal_def generateGoalId_def
      timestamp14_def slice_def)

subsection \<open>buildIndex\<close>

lemma indexGoal_generated:
  "indexGoal (index \<lparr> ix_generated := t \<rparr>) goal = (indexGoal index goal) \<lparr> ix_generated := t \<rparr>"
  by (simp add: indexGoal_def)

lemma foldl_indexGoal_generated:
  "foldl indexGoal (index \<lparr> ix_generated := t \<rparr>) goals
     = (foldl indexGoal index goals) \<lparr> ix_generated := t \<rparr>"
  by (induction goals arbitrary: index) (simp_all add: indexGoal_generated)

text \<open>
  Claim C3. Two runs of \<open>buildIndex\<close> on the same list of goals, whatever the clock reads
  in each, give the same goals map, the same \<^verbatim>\<open>by_status\<close>, \<^verbatim>\<open>by_project\<close> and \<^verbatim>\<open>by_tag\<close>
  groupings and the same edge list, keys and elements in the same order: the two indexes
  differ in the \<^verbatim>\<open>generated\<close> field only.
\<close>

theorem buildIndex_deterministic:
  "ix_goals (buildIndex a0 a1 goals) = ix_goals (buildIndex b0 b1 goals)
   \<and> ix_by_status (buildIndex a0 a1 goals) = ix_by_status (buildIndex b0 b1 goals)
   \<and> ix_by_project (buildIndex a0 a1 goals) = ix_by_project (buildIndex b0 b1 goals)
   \<and> ix_by_tag (buildIndex a0 a1 goals) = ix_by_tag (buildIndex b0 b1 goals)
   \<and> ix_edges (buildIndex a0 a1 goals) = ix_edges (buildIndex b0 b1 goals)
   \<and> buildIndex a0 a1 goals = (buildIndex b0 b1 goals) \<lparr> ix_generated := a1 \<rparr>"
proof -
  have "createEmptyIndex a0 \<lparr> ix_generated := a1 \<rparr>
          = (createEmptyIndex b0 \<lparr> ix_generated := b1 \<rparr>) \<lparr> ix_generated := a1 \<rparr>"
    by (simp add: createEmptyIndex_def)
  then have "buildIndex a0 a1 goals = (buildIndex b0 b1 goals) \<lparr> ix_generated := a1 \<rparr>"
    unfolding buildIndex_def by (simp only: foldl_indexGoal_generated)
  then show ?thesis
    by (metis GoalIndex.select_convs GoalIndex.surjective GoalIndex.update_convs(1))
qed

theorem buildIndex_deterministic_witness:
  "ix_by_status (buildIndex ''t0'' ''t1'' [sampleGoal]) = ix_by_status (buildIndex ''t2'' ''t3'' [sampleGoal])
   \<and> ix_by_status (buildIndex ''t2'' ''t3'' [sampleGoal]) = [(''active'', [''goal_20260102030405k3f9''])]"
  using buildIndex_deterministic [of "''t0''" "''t1''" "[sampleGoal]" "''t2''" "''t3''"]
  by (simp add: buildIndex_def indexGoal_def createEmptyIndex_def rec_push_def status_name_def
      sampleGoal_def sampleInstant_def createGoal_def generateGoalId_def timestamp14_def slice_def)

subsection \<open>createSnapshot\<close>

text \<open>
  Claim C5. On a goal without snapshots \<open>createSnapshot\<close> leaves \<^verbatim>\<open>previous_snapshot\<close>
  undefined; on a goal with snapshots it is the last id of the goal's list, so that once the
  id of a first snapshot is appended, a second snapshot points to the first. The
  snapshot's branch is the id of the first reference flagged current, and \<^verbatim>\<open>branch_main\<close>
  when there is no such reference or its id is empty.
\<close>

theorem createSnapshot_chaining:
  "(g_snapshots goal = [] \<longrightarrow>
      s_previous_snapshot (createSnapshot idnow rnd now goal event summary trigger changes session) = None)
   \<and> (g_snapshots goal \<noteq> [] \<longrightarrow>
      s_previous_snapshot (createSnapshot idnow rnd now goal event summary trigger changes session)
        = Some (last (g_snapshots goal)))
   \<and> s_previous_snapshot
        (createSnapshot idnow' rnd' now' (goal \<lparr> g_snapshots := g_snapshots goal @ [s_id first] \<rparr>)
           event' summary' trigger' changes' session') = Some (s_id first)
   \<and> s_branch (createSnapshot idnow rnd now goal event summary trigger changes session)
        = (case find is_current (g_branches goal) of
             None \<Rightarrow> ''branch_main''
           | Some b \<Rightarrow> if br_id b = [] then ''branch_main'' else br_id b)"
  by (simp add: createSnapshot_def last_or_def currentBranchId_def or_string_def split: option.split)

theorem createSnapshot_chaining_witness:
  "g_snapshots sampleGoal = []
   \<and> s_previous_snapshot sampleSnapshot = None
   \<and> s_branch sampleSnapshot = ''branch_main''
   \<and> s_id sampleSnapshot = ''snap_202601020304057h''
   \<and> s_previous_snapshot (createSnapshot sampleInstant ''0.9zzz'' sampleInstant
        (sampleGoal \<lparr> g_snapshots := g_snapshots sampleGoal @ [s_id sampleSnapshot] \<rparr>)
        ''again'' ''...'' TManual [] None) = Some ''snap_202601020304057h''"
proof -
  have e: "g_snapshots sampleGoal = []"
    by (simp add: sampleGoal_def createGoal_def)
  have b: "find is_current (g_branches sampleGoal) = Some main_branch_ref"
    by (simp add: sampleGoal_def createGoal_def is_current_def main_branch_ref_def)
  have i: "s_id sampleSnapshot = ''snap_202601020304057h''"
    by (simp add: sampleSnapshot_def createSnapshot_def generateSnapshotId_def timestamp14_def
        slice_def sampleInstant_def)
  from e b i
    createSnapshot_chaining [where goal = sampleGoal and idnow = sampleInstant
      and rnd = "''0.7hq2''" and now = sampleInstant and event = "''created''"
      and summary = "''...''" and trigger = TManual and changes = "[]" and session = None
      and idnow' = sampleInstant and rnd' = "''0.9zzz''" and now' = sampleInstant
      and first = sampleSnapshot and event' = "''again''" and summary' = "''...''"
      and trigger' = TManual and changes' = "[]" and session' = None]
  show ?thesis by (simp add: main_branch_ref_def sampleSnapshot_def [symmetric])
qed

subsection \<open>addGoalToProject\<close>

lemma statusList_add:
  "statusList s' (addGoalToProject now p g s)
     = filter (\<lambda>i. i \<noteq> g) (statusList s' p) @ (if s' = s then [g] else [])"
  by (cases s; cases s') (simp_all add: statusList_def addGoalToProject_def removeFromAll_def)

lemma count_filter_neq: "count_list (filter (\<lambda>i. i \<noteq> g) xs) g = 0"
  by (induction xs) auto

lemma count_after_add:
  "count_list (statusList s' (addGoalToProject now p g s)) g = (if s' = s then 1 else 0)"
  by (simp add: statusList_add count_filter_neq)

lemma count_after_repeat:
  "nows \<noteq> [] \<Longrightarrow>
     count_list (statusList s' (addRepeatedly nows p g s)) g = (if s' = s then 1 else 0)"
proof (induction nows rule: rev_induct)
  case Nil
  then show ?case by simp
next
  case (snoc t ts)
  show ?case
    unfolding addRepeatedly_def by (simp only: foldl_append foldl.simps count_after_add)
qed

lemma add_idem:
  "addGoalToProject t2 (addGoalToProject t1 p g s) g s
     = (addGoalToProject t1 p g s) \<lparr> p_updated := t2 \<rparr>"
  by (cases s) (simp_all add: addGoalToProject_def removeFromAll_def)

text \<open>
  Claim C7. After any positive number of applications of \<open>addGoalToProject\<close> with the same
  goal id and status, on any project, the goal id occurs exactly once in the list of that
  status and not at all in the other three. A second application with the same arguments
  changes nothing but the \<^verbatim>\<open>updated\<close> instant. Each application filters the id out of all
  four lists and then appends it to the target list, which is also what moves a goal from
  one status to another.
\<close>

theorem addGoalToProject_idempotent:
  "(nows \<noteq> [] \<longrightarrow>
      (\<forall>s'. count_list (statusList s' (addRepeatedly nows project goalId status)) goalId
             = (if s' = status then 1 else 0)))
   \<and> addGoalToProject t2 (addGoalToProject t1 project goalId status) goalId status
        = (addGoalToProject t1 project goalId status) \<lparr> p_updated := t2 \<rparr>
   \<and> (\<forall>s'. statusList s' (addGoalToProject t1 project goalId status)
             = filter (\<lambda>i. i \<noteq> goalId) (statusList s' project)
               @ (if s' = status then [goalId] else []))"
  using count_after_repeat add_idem statusList_add by blast

theorem addGoalToProject_idempotent_witness:
  "[''t1'', ''t2'', ''t3''] \<noteq> []
   \<and> count_list (p_active_goals sampleProject) ''g1'' = 2
   \<and> count_list (p_paused_goals sampleProject) ''g1'' = 1
   \<and> count_list (p_completed_goals (addRepeatedly [''t1'', ''t2'', ''t3''] sampleProject ''g1'' PCompleted)) ''g1'' = 1
   \<and> count_list (p_active_goals (addRepeatedly [''t1'', ''t2'', ''t3''] sampleProject ''g1'' PCompleted)) ''g1'' = 0
   \<and> count_list (p_paused_goals (addRepeatedly [''t1'', ''t2'', ''t3''] sampleProject ''g1'' PCompleted)) ''g1'' = 0
   \<and> count_list (p_abandoned_goals (addRepeatedly [''t1'', ''t2'', ''t3''] sampleProject ''g1'' PCompleted)) ''g1'' = 0"
proof -
  have n: "[''t1'', ''t2'', ''t3''] \<noteq> ([] :: string list)" by simp
  have c: "count_list (p_active_goals sampleProject) ''g1'' = 2
           \<and> count_list (p_paused_goals sampleProject) ''g1'' = 1"
    by (simp add: sampleProject_def)
  from addGoalToProject_idempotent
         [of "[''t1'', ''t2'', ''t3'']" sampleProject "''g1''" PCompleted "''t2''" "''t1''"] n
  have a: "\<forall>s'. count_list (statusList s' (addRepeatedly [''t1'', ''t2'', ''t3''] sampleProject ''g1'' PCompleted)) ''g1''
             = (if s' = PCompleted then 1 else 0)"
    by blast
  from a [rule_format, of PCompleted] a [rule_format, of PActive] a [rule_format, of PPaused]
       a [rule_format, of PAbandoned] n c
  show ?thesis by (simp add: statusList_def)
qed

subsection \<open>Archival\<close>

text \<open>
  Claim C8. \<open>archiveGoal\<close> on a goal that has no file in the active area, as is one present
  in the archived area only, returns false and leaves the store as it is. On a goal of the
  active area it returns true; afterwards \<open>loadGoal\<close> still finds the goal, through the
  archived area since the active one no longer holds it, and \<open>listGoals\<close> without the
  archived goals does not contain the id. The service's \<open>archive\<close> returns the same result
  and differs by the rebuilt index only.
\<close>

theorem archive_semantics:
  "(map_of (st_active st) goalId = None \<longrightarrow>
      fst (archiveGoal st goalId) = False \<and> snd (archiveGoal st goalId) = st)
   \<and> (map_of (st_active st) goalId = Some goal \<longrightarrow>
      fst (archiveGoal st goalId) = True
      \<and> loadGoal (snd (archiveGoal st goalId)) goalId = Some goal
      \<and> map_of (st_active (snd (archiveGoal st goalId))) goalId = None
      \<and> goalId \<notin> set (listGoals (snd (archiveGoal st goalId)) False))
   \<and> fst (archive env st goalId autoIndex) = fst (archiveGoal st goalId)
   \<and> loadGoal (snd (archive env st goalId autoIndex)) = loadGoal (snd (archiveGoal st goalId))
   \<and> listGoals (snd (archive env st goalId autoIndex)) = listGoals (snd (archiveGoal st goalId))"
proof -
  have a: "map_of (st_active st) goalId = None \<longrightarrow>
      fst (archiveGoal st goalId) = False \<and> snd (archiveGoal st goalId) = st"
    by (simp add: archiveGoal_def)
  have b: "map_of (st_active st) goalId = Some goal \<longrightarrow>
      fst (archiveGoal st goalId) = True
      \<and> loadGoal (snd (archiveGoal st goalId)) goalId = Some goal
      \<and> map_of (st_active (snd (archiveGoal st goalId))) goalId = None
      \<and> goalId \<notin> set (listGoals (snd (archiveGoal st goalId)) False)"
    using keys_unlink [of goalId "st_active st"]
    by (simp add: archiveGoal_def loadGoal_def listGoals_def map_of_unlink map_of_rec_set)
  have c: "fst (archive env st goalId autoIndex) = fst (archiveGoal st goalId)"
    by (simp add: archive_def split: prod.split)
  have d: "loadGoal (snd (archive env st goalId autoIndex)) = loadGoal (snd (archiveGoal st goalId))"
    by (cases "archiveGoal st goalId") (simp add: archive_def loadGoal_reindex)
  have e: "listGoals (snd (archive env st goalId autoIndex)) = listGoals (snd (archiveGoal st goalId))"
    by (cases "archiveGoal st goalId") (simp add: archive_def listGoals_reindex)
  from a b c d e show ?thesis by blast
qed

theorem archive_semantics_witness:
  "map_of (st_active sampleStore) (g_id sampleGoal) = Some sampleGoal
   \<and> fst (archiveGoal sampleStore (g_id sampleGoal)) = True
   \<and> loadGoal archivedStore (g_id sampleGoal) = Some sampleGoal
   \<and> listGoals archivedStore False = []
   \<and> map_of (st_active archivedStore) (g_id sampleGoal) = None
   \<and> map_of (st_archived archivedStore) (g_id sampleGoal) = Some sampleGoal
   \<and> fst (archiveGoal archivedStore (g_id sampleGoal)) = False"
proof -
  have a: "map_of (st_active sampleStore) (g_id sampleGoal) = Some sampleGoal"
    by (simp add: sampleStore_def saveGoal_def emptyStore_def)
  have l: "listGoals archivedStore False = []"
    by (simp add: archivedStore_def archiveGoal_def a listGoals_def unlink_def sampleStore_def
        saveGoal_def emptyStore_def)
  have r: "map_of (st_archived archivedStore) (g_id sampleGoal) = Some sampleGoal"
    by (simp add: archivedStore_def archiveGoal_def a map_of_rec_set)
  from a archive_semantics [of sampleStore "g_id sampleGoal" sampleGoal sampleEnv True]
  have b: "fst (archiveGoal sampleStore (g_id sampleGoal)) = True
           \<and> loadGoal archivedStore (g_id sampleGoal) = Some sampleGoal
           \<and> map_of (st_active archivedStore) (g_id sampleGoal) = None"
    by (simp add: archivedStore_def)
  with archive_semantics [of archivedStore "g_id sampleGoal" sampleGoal sampleEnv True]
  have c: "fst (archiveGoal archivedStore (g_id sampleGoal)) = False"
    by simp
  from a b c l r show ?thesis by simp
qed

subsection \<open>createGoal and validation\<close>

lemma create_goal:
  "fst (create env st input options) =
     (let goal0 = createGoal (env_goal_now env) (env_goal_id_now env) (env_goal_rnd env) input
                    (or_default (co_createdBy options) ''main'')
      in if or_default (co_autoSnapshot options) True
         then goal0 \<lparr> g_snapshots := [generateSnapshotId (env_snapshot_id_now env) (env_snapshot_rnd env)] \<rparr>
         else goal0)"
  by (simp add: create_def Let_def snapshotOf_def createSnapshot_def createGoal_def split: prod.split)

lemma create_persists:
  "loadGoal (snd (create env st input options)) (g_id (fst (create env st input options)))
     = Some (fst (create env st input options))"
  apply (simp add: create_def Let_def split: prod.split option.split)
  apply (auto simp: loadGoal_reindex loadGoal_saveProject loadGoal_saveGoal loadGoal_saveSnapshot)
  done

text \<open>
  Claim C1, as the code has it. \<open>createGoal\<close> validates nothing: for every input, blank
  required fields or not, it returns a goal that carries the title, the two states and the
  project exactly as given, and the service's \<open>create\<close> persists that goal, so that loading
  its id gives it back. No input is rejected.
\<close>

theorem createGoal_no_validation:
  "g_title (createGoal now idnow rnd input createdBy) = ci_title input
   \<and> g_current_state (createGoal now idnow rnd input createdBy) = ci_current_state input
   \<and> g_desired_state (createGoal now idnow rnd input createdBy) = ci_desired_state input
   \<and> g_project (createGoal now idnow rnd input createdBy) = ci_project input
   \<and> g_title (fst (create env st input options)) = ci_title input
   \<and> loadGoal (snd (create env st input options)) (g_id (fst (create env st input options)))
       = Some (fst (create env st input options))"
  by (simp add: create_persists) (simp add: create_goal createGoal_def Let_def)

theorem createGoal_no_validation_witness:
  "g_title (fst (create sampleEnv emptyStore sampleInput defaultOptions)) = ''Ship the parser''
   \<and> g_project (createGoal sampleInstant sampleInstant ''0.k3f9zq'' sampleInput ''main'') = ''/home/u/app''"
  using createGoal_no_validation [of sampleInstant sampleInstant "''0.k3f9zq''" sampleInput "''main''"
          sampleEnv emptyStore defaultOptions]
  by (simp add: sampleInput_def)

text \<open>
  The claim as stated fails: with all four required fields empty, \<open>createGoal\<close> returns a
  goal, and \<open>create\<close> on the empty store leaves that goal in the active area.
\<close>

theorem createGoal_blank_counterexample:
  "ci_title blankInput = [] \<and> ci_current_state blankInput = []
   \<and> ci_desired_state blankInput = [] \<and> ci_project blankInput = []
   \<and> g_title (createGoal sampleInstant sampleInstant ''0.k3f9zq'' blankInput ''main'') = []
   \<and> g_id (fst (create sampleEnv emptyStore blankInput defaultOptions)) = ''goal_20260102030405k3f9''
   \<and> loadGoal (snd (create sampleEnv emptyStore blankInput defaultOptions)) ''goal_20260102030405k3f9''
       = Some (fst (create sampleEnv emptyStore blankInput defaultOptions))
   \<and> map fst (st_active (snd (create sampleEnv emptyStore blankInput defaultOptions)))
       = [''goal_20260102030405k3f9'']"
proof -
  have i: "g_id (fst (create sampleEnv emptyStore blankInput defaultOptions)) = ''goal_20260102030405k3f9''"
    by (simp add: create_goal Let_def createGoal_def generateGoalId_def timestamp14_def slice_def
        sampleEnv_def sampleInstant_def)
  have a: "st_active (snd (create sampleEnv emptyStore blankInput defaultOptions))
             = [(''goal_20260102030405k3f9'', fst (create sampleEnv emptyStore blankInput defaultOptions))]"
    by (simp add: create_def Let_def defaultOptions_def or_default_def emptyStore_def
        findProjectByPath_def loadAllProjects_def findBestMatchingProject_def List.map_filter_simps
        saveGoal_def saveSnapshot_def reindex_fields snapshotOf_def createSnapshot_def
        createGoal_def generateGoalId_def timestamp14_def slice_def sampleEnv_def sampleInstant_def)
  from i a create_persists [of sampleEnv emptyStore blankInput defaultOptions]
  show ?thesis
    by (simp add: blankInput_def createGoal_def)
qed

subsection \<open>The current branch reference\<close>

lemma filter_current_switch:
  "filter is_current (map (\<lambda>b. b \<lparr> br_current := Some (br_id b = branchId) \<rparr>) bs)
     = map (\<lambda>b. b \<lparr> br_current := Some True \<rparr>) (filter (\<lambda>b. br_id b = branchId) bs)"
  by (induction bs) (simp_all add: is_current_def)

lemma switchBranch_result:
  assumes "loadGoal st goalId = Some goal"
  shows "fst (switchBranch st goalId branchId)
           = Some (goal \<lparr> g_branches := map (\<lambda>b. b \<lparr> br_current := Some (br_id b = branchId) \<rparr>) (g_branches goal) \<rparr>)"
    and "loadGoal (snd (switchBranch st goalId branchId)) (g_id goal) = fst (switchBranch st goalId branchId)"
  using assms by (simp_all add: switchBranch_def Let_def loadGoal_saveGoal)

lemma createGoalBranch_result:
  assumes "loadGoal st goalId = Some goal"
  shows "\<exists>g'. loadGoal (snd (createGoalBranch env st goalId name description)) (g_id goal) = Some g'
            \<and> g_branches g' = g_branches goal @
                 [\<lparr> br_id = generateBranchId name, br_name = name, br_status = BranchActive,
                    br_reason = None, br_snapshot = None, br_current = None \<rparr>]"
  using assms
  by (simp add: createGoalBranch_def Let_def loadGoal_reindex loadGoal_saveGoal createBranch_def)

text \<open>
  Claim C2, as the code has it. \<open>createGoal\<close> gives exactly one reference flagged current.
  \<open>createGoalBranch\<close> appends a reference without the flag and so keeps the references
  flagged current as they are. \<open>switchBranch\<close> flags a reference exactly when its id is
  \<open>branchId\<close>: the goal it returns and saves has as many current references as the goal
  has references with that id, hence exactly one precisely when exactly one reference has
  the id \<open>branchId\<close>.
\<close>

theorem current_branch_invariant:
  "length (filter is_current (g_branches (createGoal now idnow rnd input createdBy))) = 1
   \<and> (loadGoal st goalId = Some goal \<longrightarrow>
        (\<exists>g'. fst (switchBranch st goalId branchId) = Some g'
           \<and> loadGoal (snd (switchBranch st goalId branchId)) (g_id goal) = Some g'
           \<and> filter is_current (g_branches g')
               = map (\<lambda>b. b \<lparr> br_current := Some True \<rparr>)
                   (filter (\<lambda>b. br_id b = branchId) (g_branches goal))
           \<and> length (filter is_current (g_branches g'))
               = length (filter (\<lambda>b. br_id b = branchId) (g_branches goal))))
   \<and> (loadGoal st goalId = Some goal \<longrightarrow>
        (\<exists>g'. loadGoal (snd (createGoalBranch env st goalId name description)) (g_id goal) = Some g'
           \<and> filter is_current (g_branches g') = filter is_current (g_branches goal)))"
proof -
  have a: "length (filter is_current (g_branches (createGoal now idnow rnd input createdBy))) = 1"
    by (simp add: createGoal_def main_branch_ref_def is_current_def)
  have b: "loadGoal st goalId = Some goal \<longrightarrow>
        (\<exists>g'. fst (switchBranch st goalId branchId) = Some g'
           \<and> loadGoal (snd (switchBranch st goalId branchId)) (g_id goal) = Some g'
           \<and> filter is_current (g_branches g')
               = map (\<lambda>b. b \<lparr> br_current := Some True \<rparr>)
                   (filter (\<lambda>b. br_id b = branchId) (g_branches goal))
           \<and> length (filter is_current (g_branches g'))
               = length (filter (\<lambda>b. br_id b = branchId) (g_branches goal)))"
    by (simp add: switchBranch_result filter_current_switch)
  have c: "loadGoal st goalId = Some goal \<longrightarrow>
        (\<exists>g'. loadGoal (snd (createGoalBranch env st goalId name description)) (g_id goal) = Some g'
           \<and> filter is_current (g_branches g') = filter is_current (g_branches goal))"
  proof
    assume "loadGoal st goalId = Some goal"
    from createGoalBranch_result [OF this, of env name description]
    obtain g' where "loadGoal (snd (createGoalBranch env st goalId name description)) (g_id goal) = Some g'"
      and "g_branches g' = g_branches goal @
                 [\<lparr> br_id = generateBranchId name, br_name = name, br_status = BranchActive,
                    br_reason = None, br_snapshot = None, br_current = None \<rparr>]"
      by blast
    then show "\<exists>g'. loadGoal (snd (createGoalBranch env st goalId name description)) (g_id goal) = Some g'
           \<and> filter is_current (g_branches g') = filter is_current (g_branches goal)"
      by (simp add: is_current_def)
  qed
  from a b c show ?thesis by blast
qed

theorem current_branch_invariant_witness:
  "loadGoal sampleStore (g_id sampleGoal) = Some sampleGoal
   \<and> map_option (\<lambda>g. length (filter is_current (g_branches g)))
        (fst (switchBranch sampleStore (g_id sampleGoal) ''branch_main'')) = Some 1
   \<and> map_option (\<lambda>g. filter is_current (g_branches g))
        (loadGoal (snd (createGoalBranch sampleEnv sampleStore (g_id sampleGoal) ''Try SSE'' []))
           (g_id sampleGoal)) = Some [main_branch_ref]"
proof -
  have l: "loadGoal sampleStore (g_id sampleGoal) = Some sampleGoal"
    by (simp add: sampleStore_def loadGoal_saveGoal)
  have b: "g_branches sampleGoal = [main_branch_ref]"
    by (simp add: sampleGoal_def createGoal_def)
  note s = current_branch_invariant [THEN conjunct2, THEN conjunct1, rule_format, OF l]
  note c = current_branch_invariant [THEN conjunct2, THEN conjunct2, rule_format, OF l]
  from s [where branchId = "''branch_main''"]
  have x: "map_option (\<lambda>g. length (filter is_current (g_branches g)))
        (fst (switchBranch sampleStore (g_id sampleGoal) ''branch_main'')) = Some 1"
    by (auto simp: b main_branch_ref_def)
  from c [where env = sampleEnv and name = "''Try SSE''" and description = "[]"]
  have y: "map_option (\<lambda>g. filter is_current (g_branches g))
        (loadGoal (snd (createGoalBranch sampleEnv sampleStore (g_id sampleGoal) ''Try SSE'' []))
           (g_id sampleGoal)) = Some [main_branch_ref]"
    by (auto simp: b main_branch_ref_def is_current_def)
  from l x y show ?thesis by blast
qed

text \<open>
  The claim as stated fails for \<open>switchBranch\<close>: on the goal \<open>createGoal\<close> made, which has
  exactly one current reference, switching to an id that no reference carries returns a
  goal with no current reference at all.
\<close>

theorem switchBranch_counterexample:
  "length (filter is_current (g_branches sampleGoal)) = 1
   \<and> loadGoal sampleStore (g_id sampleGoal) = Some sampleGoal
   \<and> map_option g_branches (fst (switchBranch sampleStore (g_id sampleGoal) ''branch_missing''))
       = Some [main_branch_ref \<lparr> br_current := Some False \<rparr>]
   \<and> filter is_current [main_branch_ref \<lparr> br_current := Some False \<rparr>] = []"
proof -
  have l: "loadGoal sampleStore (g_id sampleGoal) = Some sampleGoal"
    by (simp add: sampleStore_def loadGoal_saveGoal)
  have b: "g_branches sampleGoal = [main_branch_ref]"
    by (simp add: sampleGoal_def createGoal_def)
  show ?thesis
    by (simp add: l b switchBranch_result [OF l] is_current_def main_branch_ref_def)
qed

subsection \<open>The range of progress\<close>

lemma updateGoal_id: "g_id (updateGoal now goal input updatedBy) = g_id goal"
  by (simp add: updateGoal_def)

lemma updateGoal_progress:
  "g_progress (updateGoal now goal input updatedBy)
     = (case ui_progress input of None \<Rightarrow> g_progress goal | Some p \<Rightarrow> p)"
  by (simp add: updateGoal_def or_default_def)

lemma update_result:
  assumes "loadGoal st goalId = Some goal"
  shows "\<exists>g'. fst (update env st goalId input options) = Some g'
            \<and> loadGoal (snd (update env st goalId input options)) (g_id goal) = Some g'
            \<and> g_progress g' = g_progress (updateGoal (env_update_now env) goal input
                                   (or_default (uo_updatedBy options) ''main''))"
  using assms
  by (simp add: update_def Let_def loadGoal_reindex loadGoal_saveProject loadGoal_saveGoal
      updateGoal_id split: prod.split option.split)

lemma clamp_range:
  "p \<noteq> NaN \<Longrightarrow> \<exists>r. mathMax (Num 0) (mathMin (Num 1) p) = Num r \<and> 0 \<le> r \<and> r \<le> 1"
  by (cases p) (auto simp: mathMax_def mathMin_def)

lemma clamp_NaN: "mathMax (Num 0) (mathMin (Num 1) NaN) = NaN"
  by (simp add: mathMax_def mathMin_def)

lemma setProgress_result:
  assumes "loadGoal st goalId = Some goal"
  shows "\<exists>g'. fst (setProgress env st goalId p updatedBy) = Some g'
            \<and> loadGoal (snd (setProgress env st goalId p updatedBy)) (g_id goal) = Some g'
            \<and> g_progress g' = mathMax (Num 0) (mathMin (Num 1) p)"
  using update_result [OF assms, of env "no_patch \<lparr> ui_progress := Some (mathMax (Num 0) (mathMin (Num 1) p)) \<rparr>"
      "\<lparr> uo_updatedBy = Some updatedBy, uo_autoSnapshot = None, uo_snapshotEvent = None,
         uo_autoIndex = None \<rparr>"]
  by (auto simp: setProgress_def Let_def updateGoal_progress)

lemma sampleStore_load: "loadGoal sampleStore (g_id sampleGoal) = Some sampleGoal"
  by (simp add: sampleStore_def loadGoal_saveGoal)

text \<open>
  Claim C6. The range of progress is the one the \<^verbatim>\<open>Goal\<close> interface documents
  (\<^verbatim>\<open>progress: number; // 0.0 to 1.0\<close>), and \<open>setProgress\<close> keeps to it by clamping: on the
  goal \<open>createGoal\<close> made, whose progress is 0, the inputs -0.3, 1.7 and 0.5 are stored as
  0, 1 and 0.5. \<open>updateGoal\<close> does not keep to it: on the same goal the patch with
  progress 1.7 gives a goal with progress 1.7, which is not at most 1, and the service's
  \<open>update\<close> returns that goal and saves it. Nor does the clamp of \<open>setProgress\<close> cover
  \<^verbatim>\<open>NaN\<close>, which it stores as it is.
\<close>

theorem updateGoal_progress_unclamped:
  "g_progress sampleGoal = Num 0
   \<and> g_progress (updateGoal sampleInstant sampleGoal (no_patch \<lparr> ui_progress := Some (Num 1.7) \<rparr>) ''main'')
       = Num 1.7
   \<and> \<not> numLe (Num 1.7) (Num 1)
   \<and> map_option g_progress
        (fst (update sampleEnv sampleStore (g_id sampleGoal) (no_patch \<lparr> ui_progress := Some (Num 1.7) \<rparr>)
                defaultUpdateOptions)) = Some (Num 1.7)
   \<and> map_option g_progress
        (loadGoal (snd (update sampleEnv sampleStore (g_id sampleGoal)
                          (no_patch \<lparr> ui_progress := Some (Num 1.7) \<rparr>) defaultUpdateOptions))
           (g_id sampleGoal)) = Some (Num 1.7)
   \<and> map_option g_progress (fst (setProgress sampleEnv sampleStore (g_id sampleGoal) (Num (- 0.3)) ''main''))
       = Some (Num 0)
   \<and> map_option g_progress (fst (setProgress sampleEnv sampleStore (g_id sampleGoal) (Num 1.7) ''main''))
       = Some (Num 1)
   \<and> map_option g_progress (fst (setProgress sampleEnv sampleStore (g_id sampleGoal) (Num 0.5) ''main''))
       = Some (Num 0.5)
   \<and> map_option g_progress (fst (setProgress sampleEnv sampleStore (g_id sampleGoal) NaN ''main''))
       = Some NaN"
proof -
  have z: "g_progress sampleGoal = Num 0"
    by (simp add: sampleGoal_def createGoal_def)
  have u: "g_progress (updateGoal sampleInstant sampleGoal (no_patch \<lparr> ui_progress := Some (Num 1.7) \<rparr>) ''main'')
             = Num 1.7"
    by (simp add: updateGoal_progress)
  have n: "\<not> numLe (Num 1.7) (Num 1)"
    by simp
  from update_result [OF sampleStore_load, of sampleEnv "no_patch \<lparr> ui_progress := Some (Num 1.7) \<rparr>"
      defaultUpdateOptions]
  have s: "map_option g_progress
        (fst (update sampleEnv sampleStore (g_id sampleGoal) (no_patch \<lparr> ui_progress := Some (Num 1.7) \<rparr>)
                defaultUpdateOptions)) = Some (Num 1.7)
     \<and> map_option g_progress
        (loadGoal (snd (update sampleEnv sampleStore (g_id sampleGoal)
                          (no_patch \<lparr> ui_progress := Some (Num 1.7) \<rparr>) defaultUpdateOptions))
           (g_id sampleGoal)) = Some (Num 1.7)"
    by (auto simp: updateGoal_progress)
  from setProgress_result [OF sampleStore_load, of sampleEnv "Num (- 0.3)" "''main''"]
  have a: "map_option g_progress (fst (setProgress sampleEnv sampleStore (g_id sampleGoal) (Num (- 0.3)) ''main''))
             = Some (Num 0)"
    by (auto simp: mathMax_def mathMin_def)
  from setProgress_result [OF sampleStore_load, of sampleEnv "Num 1.7" "''main''"]
  have b: "map_option g_progress (fst (setProgress sampleEnv sampleStore (g_id sampleGoal) (Num 1.7) ''main''))
             = Some (Num 1)"
    by (auto simp: mathMax_def mathMin_def)
  from setProgress_result [OF sampleStore_load, of sampleEnv "Num 0.5" "''main''"]
  have c: "map_option g_progress (fst (setProgress sampleEnv sampleStore (g_id sampleGoal) (Num 0.5) ''main''))
             = Some (Num 0.5)"
    by (auto simp: mathMax_def mathMin_def)
  from setProgress_result [OF sampleStore_load, of sampleEnv NaN "''main''"]
  have d: "map_option g_progress (fst (setProgress sampleEnv sampleStore (g_id sampleGoal) NaN ''main''))
             = Some NaN"
    by (auto simp: clamp_NaN)
  from z u n s a b c d show ?thesis by blast
qed

theorem updateGoal_progress_unclamped_witness:
  "map_option g_progress
     (loadGoal (snd (update sampleEnv sampleStore (g_id sampleGoal)
                       (no_patch \<lparr> ui_progress := Some (Num 1.7) \<rparr>) defaultUpdateOptions))
        (g_id sampleGoal)) = Some (Num 1.7)
   \<and> map_option g_progress (fst (setProgress sampleEnv sampleStore (g_id sampleGoal) (Num 1.7) ''main''))
       = Some (Num 1)"
  using updateGoal_progress_unclamped by blast

subsection \<open>createBranch\<close>

text \<open>
  Claim C9, as the code has it. \<open>createBranch\<close> returns a branch whose parent is the id of
  the first reference flagged current (\<^verbatim>\<open>branch_main\<close> when there is none or its id is
  empty), with no snapshots and status active. When the goal has snapshots, the branch
  point is the last id of the goal's list, one of the goal's snapshots; when the goal has
  none, the branch point is the empty string.
\<close>

theorem createBranch_fields:
  "b_parent_branch (createBranch now goal name description)
     = (case find is_current (g_branches goal) of
          None \<Rightarrow> ''branch_main''
        | Some b \<Rightarrow> if br_id b = [] then ''branch_main'' else br_id b)
   \<and> b_snapshots (createBranch now goal name description) = []
   \<and> b_status (createBranch now goal name description) = BranchActive
   \<and> (g_snapshots goal \<noteq> [] \<longrightarrow>
        b_branch_point (createBranch now goal name description) = last (g_snapshots goal)
        \<and> b_branch_point (createBranch now goal name description) \<in> set (g_snapshots goal))
   \<and> (g_snapshots goal = [] \<longrightarrow> b_branch_point (createBranch now goal name description) = [])"
  by (simp add: createBranch_def last_or_def currentBranchId_def or_string_def split: option.split)

theorem createBranch_fields_witness:
  "g_snapshots (sampleGoal \<lparr> g_snapshots := [''snap_a'', ''snap_b''] \<rparr>) \<noteq> []
   \<and> b_branch_point (createBranch sampleInstant (sampleGoal \<lparr> g_snapshots := [''snap_a'', ''snap_b''] \<rparr>)
        ''Try SSE'' []) = ''snap_b''
   \<and> b_parent_branch (createBranch sampleInstant (sampleGoal \<lparr> g_snapshots := [''snap_a'', ''snap_b''] \<rparr>)
        ''Try SSE'' []) = ''branch_main''
   \<and> b_snapshots (createBranch sampleInstant (sampleGoal \<lparr> g_snapshots := [''snap_a'', ''snap_b''] \<rparr>)
        ''Try SSE'' []) = []"
proof -
  have b: "find is_current (g_branches sampleGoal) = Some main_branch_ref"
    by (simp add: sampleGoal_def createGoal_def is_current_def main_branch_ref_def)
  from b createBranch_fields [of sampleInstant "sampleGoal \<lparr> g_snapshots := [''snap_a'', ''snap_b''] \<rparr>"
         "''Try SSE''" "[]"]
  show ?thesis by (simp add: main_branch_ref_def)
qed

text \<open>
  The claim as stated fails on a goal without snapshots: the branch point is the empty
  string, which is no snapshot of the goal.
\<close>

theorem createBranch_counterexample:
  "g_snapshots sampleGoal = []
   \<and> b_branch_point (createBranch sampleInstant sampleGoal ''Try SSE'' []) = []
   \<and> b_branch_point (createBranch sampleInstant sampleGoal ''Try SSE'' []) \<notin> set (g_snapshots sampleGoal)"
  by (simp add: sampleGoal_def createGoal_def createBranch_def last_or_def)

subsection \<open>getAncestors\<close>

lemma nextAncestor_key: "nextAncestor index g = Some p \<Longrightarrow> g \<in> fst ` set (ix_goals index)"
  by (auto simp: nextAncestor_def getParentGoal_def opt_chain_def split: option.splits if_splits
      dest!: map_of_SomeD intro: rev_image_eqI)

lemma parentChain_length: "length (parentChain index n g) \<le> n"
  by (induction n arbitrary: g) (auto split: option.split)

lemma chain_keys: "set (butlast (g # parentChain index n g)) \<subseteq> fst ` set (ix_goals index)"
proof (induction n arbitrary: g)
  case 0
  then show ?case by simp
next
  case (Suc n)
  show ?case
  proof (cases "nextAncestor index g")
    case None
    then show ?thesis by simp
  next
    case (Some p)
    with Suc [of p] nextAncestor_key [OF Some] show ?thesis by simp
  qed
qed

lemma chain_bound:
  assumes "length (parentChain index n g) = n" and "distinct (g # parentChain index n g)"
  shows "n \<le> length (ix_goals index)"
proof -
  let ?xs = "butlast (g # parentChain index n g)"
  have d: "distinct ?xs" using assms(2) by (rule distinct_butlast)
  have "length ?xs = n" using assms(1) by (simp add: length_butlast del: butlast.simps)
  with d have "card (set ?xs) = n" by (simp add: distinct_card)
  moreover have "card (set ?xs) \<le> card (fst ` set (ix_goals index))"
    by (rule card_mono [OF _ chain_keys]) simp
  moreover have "card (fst ` set (ix_goals index)) \<le> length (ix_goals index)"
    by (rule order_trans [OF card_image_le card_length]) simp
  ultimately show ?thesis by linarith
qed

lemma loop_returns:
  "length (parentChain index n g) < n \<Longrightarrow>
     ancestorsLoop index (getParentGoal index g) acc = Some (acc @ parentChain index n g)"
proof (induction n arbitrary: g acc)
  case 0
  then show ?case by simp
next
  case (Suc n)
  show ?case
  proof (cases "nextAncestor index g")
    case None
    then show ?thesis
      by (subst ancestorsLoop.simps) (simp add: nextAncestor_def split: option.splits if_splits)
  next
    case (Some p)
    then have g: "getParentGoal index g = Some p" and p: "p \<noteq> []"
      by (auto simp: nextAncestor_def split: option.splits if_splits)
    from Suc.prems Some have "length (parentChain index n p) < n" by simp
    from Suc.IH [OF this, of "acc @ [p]"] g p Some show ?thesis
      by (subst ancestorsLoop.simps) simp
  qed
qed

lemma chain_of_ended:
  "length (parentChain index n g) < n \<Longrightarrow> ancestorChain index g (parentChain index n g)"
  by (induction n arbitrary: g) (auto split: option.split)

lemma chain_unique:
  "ancestorChain index g ps \<Longrightarrow> ancestorChain index g qs \<Longrightarrow> ps = qs"
proof (induction ps arbitrary: g qs)
  case Nil
  then show ?case by (cases qs) simp_all
next
  case (Cons p ps)
  then show ?case by (cases qs) auto
qed

lemma chain_suffix: "ancestorChain index g (xs @ c # ys) \<Longrightarrow> ancestorChain index c ys"
  by (induction xs arbitrary: g) auto

lemma chain_distinct: "ancestorChain index g ps \<Longrightarrow> distinct (g # ps)"
proof (induction ps arbitrary: g)
  case Nil
  then show ?case by simp
next
  case (Cons p ps)
  from Cons.prems have "ancestorChain index p ps" by simp
  from Cons.IH [OF this] have d: "distinct (p # ps)" .
  have "g \<notin> set (p # ps)"
  proof
    assume "g \<in> set (p # ps)"
    then obtain xs ys where s: "p # ps = xs @ g # ys" by (meson split_list)
    with Cons.prems have "ancestorChain index g ys" by (simp add: chain_suffix)
    with Cons.prems have "ys = p # ps" by (rule chain_unique [rotated])
    moreover from s have "length (p # ps) = length (xs @ g # ys)" by (rule arg_cong)
    ultimately show False by simp
  qed
  with d show ?case by simp
qed

lemma chain_prefix: "ancestorChain index g ps \<Longrightarrow> parentChain index n g = take n ps"
proof (induction n arbitrary: g ps)
  case 0
  then show ?case by simp
next
  case (Suc n)
  then show ?case by (cases ps) auto
qed

lemma chain_acyclic: "ancestorChain index g ps \<Longrightarrow> acyclicFrom index g"
proof -
  assume c: "ancestorChain index g ps"
  then have d: "distinct (g # ps)" by (rule chain_distinct)
  show "acyclicFrom index g"
    unfolding acyclicFrom_def
  proof
    fix n
    from d have "g \<notin> set (take n ps)" by (auto dest: in_set_takeD)
    moreover from d have "distinct (take n ps)" by simp
    ultimately show "distinct (g # parentChain index n g)" by (simp add: chain_prefix [OF c])
  qed
qed

lemma loop_chain:
  assumes "ancestorsLoop index current acc = Some r"
  shows "\<forall>g. current = getParentGoal index g \<longrightarrow> (\<exists>ps. r = acc @ ps \<and> ancestorChain index g ps)"
proof (rule ancestorsLoop.raw_induct
    [where P = "\<lambda>i c a y. \<forall>g. c = getParentGoal i g \<longrightarrow> (\<exists>ps. y = a @ ps \<and> ancestorChain i g ps)",
      OF _ assms])
  fix loop :: "GoalIndex \<Rightarrow> string option \<Rightarrow> string list \<Rightarrow> string list option"
  fix idx cur ac res
  assume IH: "\<And>i c a y. loop i c a = Some y \<Longrightarrow>
                \<forall>g. c = getParentGoal i g \<longrightarrow> (\<exists>ps. y = a @ ps \<and> ancestorChain i g ps)"
  assume body: "(case cur of None \<Rightarrow> Some ac
                 | Some c \<Rightarrow> if c = [] then Some ac
                             else loop idx (getParentGoal idx c) (ac @ [c])) = Some res"
  show "\<forall>g. cur = getParentGoal idx g \<longrightarrow> (\<exists>ps. res = ac @ ps \<and> ancestorChain idx g ps)"
  proof (intro allI impI)
    fix g
    assume c: "cur = getParentGoal idx g"
    show "\<exists>ps. res = ac @ ps \<and> ancestorChain idx g ps"
    proof (cases "nextAncestor idx g")
      case None
      with c body have "res = ac"
        by (auto simp: nextAncestor_def split: option.splits if_splits)
      with None show ?thesis by simp
    next
      case (Some p)
      with c have cur: "cur = Some p" and p: "p \<noteq> []"
        by (auto simp: nextAncestor_def split: option.splits if_splits)
      with body have "loop idx (getParentGoal idx p) (ac @ [p]) = Some res" by simp
      from IH [OF this] obtain qs where "res = (ac @ [p]) @ qs" and "ancestorChain idx p qs"
        by blast
      with Some have "res = ac @ (p # qs) \<and> ancestorChain idx g (p # qs)" by simp
      then show ?thesis by blast
    qed
  qed
qed

lemma acyclic_if_ended:
  "length (parentChain index n g) < n \<Longrightarrow> acyclicFrom index g"
  by (rule chain_acyclic [OF chain_of_ended])

text \<open>
  Claim C10. When following the parent entries from \<open>goalId\<close> never revisits an id,
  \<open>getAncestors\<close> returns, and what it returns are the ancestors in order from the nearest
  parent up to a goal without parent. The walk detects no cycle: when the chain does
  revisit an id, \<open>getAncestors\<close> does not return.
\<close>

theorem getAncestors_terminates:
  "(acyclicFrom index goalId \<longrightarrow>
      (\<exists>ancestors. getAncestors index goalId = Some ancestors
         \<and> ancestorChain index goalId ancestors))
   \<and> (\<not> acyclicFrom index goalId \<longrightarrow> getAncestors index goalId = None)"
proof (intro conjI impI)
  assume a: "acyclicFrom index goalId"
  let ?n = "Suc (length (ix_goals index))"
  from a have d: "distinct (goalId # parentChain index ?n goalId)"
    unfolding acyclicFrom_def by (rule spec)
  have "length (parentChain index ?n goalId) \<noteq> ?n"
  proof
    assume "length (parentChain index ?n goalId) = ?n"
    from chain_bound [OF this d] show False by simp
  qed
  with parentChain_length [of index ?n goalId]
  have l: "length (parentChain index ?n goalId) < ?n" by linarith
  from loop_returns [OF l, of "[]"] chain_of_ended [OF l]
  show "\<exists>ancestors. getAncestors index goalId = Some ancestors
         \<and> ancestorChain index goalId ancestors"
    by (simp add: getAncestors_def)
next
  assume n: "\<not> acyclicFrom index goalId"
  show "getAncestors index goalId = None"
  proof (rule ccontr)
    assume "getAncestors index goalId \<noteq> None"
    then obtain r where "ancestorsLoop index (getParentGoal index goalId) [] = Some r"
      by (auto simp: getAncestors_def)
    from loop_chain [OF this] obtain ps where "ancestorChain index goalId ps" by auto
    from chain_acyclic [OF this] n show False by simp
  qed
qed

theorem getAncestors_terminates_witness:
  "acyclicFrom sampleIndex ''c''
   \<and> getAncestors sampleIndex ''c'' = Some [''b'', ''a'']
   \<and> \<not> acyclicFrom cyclicIndex ''x''
   \<and> getAncestors cyclicIndex ''x'' = None"
proof -
  have n: "nextAncestor sampleIndex ''c'' = Some ''b''" "nextAncestor sampleIndex ''b'' = Some ''a''"
    "nextAncestor sampleIndex ''a'' = None"
    by (simp_all add: nextAncestor_def getParentGoal_def opt_chain_def sampleIndex_def
        sampleEntry_def)
  have "parentChain sampleIndex (Suc (Suc (Suc 0))) ''c'' = [''b'', ''a'']"
    by (simp add: n)
  then have "length (parentChain sampleIndex (Suc (Suc (Suc 0))) ''c'') < Suc (Suc (Suc 0))"
    by simp
  then have a: "acyclicFrom sampleIndex ''c''"
    by (rule acyclic_if_ended)
  have c: "ancestorChain sampleIndex ''c'' [''b'', ''a'']"
    by (simp add: n)
  from a getAncestors_terminates [of sampleIndex "''c''"]
  obtain ps where r: "getAncestors sampleIndex ''c'' = Some ps"
    and "ancestorChain sampleIndex ''c'' ps"
    by blast
  with c have "ps = [''b'', ''a'']"
    by (simp add: chain_unique)
  with r have g: "getAncestors sampleIndex ''c'' = Some [''b'', ''a'']"
    by simp
  have m: "nextAncestor cyclicIndex ''x'' = Some ''y''" "nextAncestor cyclicIndex ''y'' = Some ''x''"
    by (simp_all add: nextAncestor_def getParentGoal_def opt_chain_def cyclicIndex_def
        sampleEntry_def)
  have "\<not> distinct (''x'' # parentChain cyclicIndex (Suc (Suc 0)) ''x'')"
    by (simp add: m)
  then have x: "\<not> acyclicFrom cyclicIndex ''x''"
    unfolding acyclicFrom_def by blast
  with getAncestors_terminates [of cyclicIndex "''x''"]
  have y: "getAncestors cyclicIndex ''x'' = None"
    by blast
  from a g x y show ?thesis by blast
qed

end
